theory Spec2Isabelle
  imports Complex_Main
begin

section \<open>Python and NumPy values\<close>

text \<open>
  The dataset pipeline of \<^verbatim>\<open>process/api.py\<close> works on pandas tables whose cells are
  Python floats, Python ints, strings, NumPy arrays or NumPy scalars. A float is either finite
  or one of the three IEEE special values. A finite binary64 float is the real number it
  denotes: the rounding of binary64 arithmetic is not part of this model. The rounding to
  binary32 and binary16, which the code asks for by name, is.
  Exceptions are values of the type \<open>error\<close>.

  \<open>PyFloat\<close> and \<open>PyInt\<close> are the builtin \<^verbatim>\<open>float\<close> and \<^verbatim>\<open>int\<close>; \<open>NpScalar\<close> is a
  NumPy scalar object such as \<^verbatim>\<open>np.float64\<close> or \<^verbatim>\<open>np.float32\<close>, whose type is defined in
  the module \<^verbatim>\<open>numpy\<close>, as \<open>NpArray\<close> is.
\<close>

datatype error = KeyError | ValueError | TypeError | OverflowError | FileNotFoundError

datatype fl = Fin real | PInf | NInf | NaN

datatype pyval = PyFloat fl | PyInt int | PyStr string | NpArray "fl list" | NpScalar fl

fun isfinite :: "fl \<Rightarrow> bool" where
  "isfinite (Fin _) = True"
| "isfinite _ = False"

fun fl_neg :: "fl \<Rightarrow> fl" where
  "fl_neg (Fin a) = Fin (- a)"
| "fl_neg PInf = NInf"
| "fl_neg NInf = PInf"
| "fl_neg NaN = NaN"

fun fl_add :: "fl \<Rightarrow> fl \<Rightarrow> fl" where
  "fl_add (Fin a) (Fin b) = Fin (a + b)"
| "fl_add NaN _ = NaN"
| "fl_add _ NaN = NaN"
| "fl_add PInf NInf = NaN"
| "fl_add NInf PInf = NaN"
| "fl_add PInf _ = PInf"
| "fl_add _ PInf = PInf"
| "fl_add NInf _ = NInf"
| "fl_add _ NInf = NInf"

definition fl_sub :: "fl \<Rightarrow> fl \<Rightarrow> fl" where
  "fl_sub x y = fl_add x (fl_neg y)"

fun fl_mul :: "fl \<Rightarrow> fl \<Rightarrow> fl" where
  "fl_mul (Fin a) (Fin b) = Fin (a * b)"
| "fl_mul NaN _ = NaN"
| "fl_mul _ NaN = NaN"
| "fl_mul (Fin a) y = (if a = 0 then NaN else if (0 < a) = (y = PInf) then PInf else NInf)"
| "fl_mul x (Fin b) = (if b = 0 then NaN else if (0 < b) = (x = PInf) then PInf else NInf)"
| "fl_mul x y = (if x = y then PInf else NInf)"

fun fl_div :: "fl \<Rightarrow> fl \<Rightarrow> fl" where
  "fl_div (Fin a) (Fin b) =
     (if b = 0 then (if a = 0 then NaN else if 0 < a then PInf else NInf) else Fin (a / b))"
| "fl_div NaN _ = NaN"
| "fl_div _ NaN = NaN"
| "fl_div (Fin a) _ = Fin 0"
| "fl_div x (Fin b) = (if (0 \<le> b) = (x = PInf) then PInf else NInf)"
| "fl_div _ _ = NaN"

fun fl_sqrt :: "fl \<Rightarrow> fl" where
  "fl_sqrt (Fin a) = (if a < 0 then NaN else Fin (sqrt a))"
| "fl_sqrt PInf = PInf"
| "fl_sqrt _ = NaN"

subsection \<open>Conversion of integers to binary64\<close>

text \<open>
  \<^verbatim>\<open>int(total * split[0])\<close> multiplies an int by a float and \<^verbatim>\<open>math.isfinite\<close>
  converts an int to a float. Both depend on the exact rounding of binary64, so here the
  rounding is written out: a natural number is rounded to 53 significant bits, ties to even.
\<close>

fun bit_length :: "nat \<Rightarrow> nat" where
  "bit_length n = (if n = 0 then 0 else Suc (bit_length (n div 2)))"

declare bit_length.simps [simp del]

definition round_to_bits :: "nat \<Rightarrow> nat \<Rightarrow> nat" where
  "round_to_bits p n =
     (let s = bit_length n - p; q = n div 2 ^ s; r = n mod 2 ^ s
      in if s = 0 then n
         else if 2 ^ (s - 1) < r \<or> (r = 2 ^ (s - 1) \<and> odd q) then (q + 1) * 2 ^ s
         else q * 2 ^ s)"

definition round_to_double :: "nat \<Rightarrow> nat" where
  "round_to_double n = round_to_bits 53 n"


subsection \<open>Rounding to binary32 and binary16\<close>

text \<open>
  \<^verbatim>\<open>astype('float16')\<close> and \<^verbatim>\<open>dtype=np.float32\<close> round a value to a narrower format:
  to the nearest number with \<open>p\<close> significant bits, or to the nearest multiple of the
  smallest positive number \<open>2 ^ - k\<close> of the format where that is coarser, ties to even; a
  result of magnitude \<open>2 ^ emax\<close> or more is an infinity. binary16 has \<open>p = 11\<close>,
  \<open>k = 24\<close> and \<open>emax = 16\<close>, binary32 has \<open>p = 24\<close>, \<open>k = 149\<close> and
  \<open>emax = 128\<close>.
\<close>

definition round_half_even :: "real \<Rightarrow> int" where
  "round_half_even q =
     (let f = \<lfloor>q\<rfloor>; d = q - of_int f
      in if d < 1 / 2 then f else if 1 / 2 < d then f + 1 else if even f then f else f + 1)"

definition round_to_format :: "nat \<Rightarrow> nat \<Rightarrow> nat \<Rightarrow> real \<Rightarrow> fl" where
  "round_to_format p k emax x =
     (let a = \<bar>x\<bar> * 2 ^ k;
          s = bit_length (nat \<lfloor>a\<rfloor>) - p;
          y = of_int (round_half_even (a / 2 ^ s)) * 2 ^ s / 2 ^ k
      in if 2 ^ emax \<le> y then (if 0 < x then PInf else NInf)
         else Fin (if 0 \<le> x then y else - y))"

fun to_float16 :: "fl \<Rightarrow> fl" where
  "to_float16 (Fin x) = round_to_format 11 24 16 x"
| "to_float16 v = v"

fun to_float32 :: "fl \<Rightarrow> fl" where
  "to_float32 (Fin x) = round_to_format 24 149 128 x"
| "to_float32 v = v"


text \<open>
  A non-negative float constant is kept exactly, as \<open>mant / 2 ^ expo\<close>; the default
  \<^verbatim>\<open>data_split = (0.0, 0.8, 0.9, 0.99)\<close> of \<^verbatim>\<open>TrainingConfig\<close> consists of the
  binary64 values \<^verbatim>\<open>0x0p0\<close>, \<^verbatim>\<open>0x1.999999999999ap-1\<close>, \<^verbatim>\<open>0x1.ccccccccccccdp-1\<close>
  and \<^verbatim>\<open>0x1.fae147ae147aep-1\<close>.
\<close>

record dbl =
  mant :: nat
  expo :: nat

definition default_data_split :: "dbl list" where
  "default_data_split =
     [\<lparr>mant = 0, expo = 53\<rparr>,
      \<lparr>mant = 7205759403792794, expo = 53\<rparr>,
      \<lparr>mant = 8106479329266893, expo = 53\<rparr>,
      \<lparr>mant = 8917127262193582, expo = 53\<rparr>]"

text \<open>
  \<^verbatim>\<open>int(n * c)\<close> for an int \<open>n \<ge> 0\<close> and a float \<open>c \<ge> 0\<close>: \<open>n\<close> is converted to
  binary64, the exact product is rounded to binary64, and \<^verbatim>\<open>int\<close> truncates.
\<close>

definition int_of_product :: "nat \<Rightarrow> dbl \<Rightarrow> nat" where
  "int_of_product n c = round_to_double (round_to_double n * mant c) div 2 ^ expo c"

text \<open>
  Converting a Python int to a float raises \<^verbatim>\<open>OverflowError\<close> when the rounded
  magnitude reaches \<open>2 ^ 1024\<close>.
\<close>

definition int_too_large :: "int \<Rightarrow> bool" where
  "int_too_large n = (2 ^ 1024 \<le> round_to_double (nat \<bar>n\<bar>))"

text \<open>The slice \<^verbatim>\<open>xs[a:b]\<close> for non-negative \<open>a\<close> and \<open>b\<close>.\<close>

definition py_slice :: "'a list \<Rightarrow> nat \<Rightarrow> nat \<Rightarrow> 'a list" where
  "py_slice xs a b = take (b - a) (drop a xs)"

section \<open>Song discovery\<close>

text \<open>
  A directory holds the names of its files and its named subdirectories.
  \<^verbatim>\<open>os.walk(path, topdown=False)\<close> yields \<open>(root, dirs, files)\<close> for every directory
  below \<open>path\<close>, children before their parent. File names are byte strings here and
  \<^verbatim>\<open>str.lower\<close> changes the ASCII capitals only.
\<close>

datatype dir = Dir (files: "string list") (subdirs: "(string \<times> dir) list")

definition path_join :: "string \<Rightarrow> string \<Rightarrow> string" where
  "path_join a b =
     (if b \<noteq> [] \<and> hd b = CHR ''/'' then b
      else if a = [] \<or> last a = CHR ''/'' then a @ b
      else a @ ''/'' @ b)"

fun os_walk :: "string \<Rightarrow> dir \<Rightarrow> (string \<times> string list \<times> string list) list" where
  "os_walk dirpath (Dir fs subs) =
     concat (map (\<lambda>(name, d). os_walk (path_join dirpath name) d) subs) @ [(dirpath, map fst subs, fs)]"

definition lower_char :: "char \<Rightarrow> char" where
  "lower_char c =
     (if 65 \<le> (of_char c :: nat) \<and> (of_char c :: nat) \<le> 90 then char_of (of_char c + 32 :: nat)
      else c)"

definition lower :: "string \<Rightarrow> string" where
  "lower name = map lower_char name"

definition indicators :: "string list" where
  "indicators = [''info.dat'', ''info.json'']"

definition is_song_folder :: "string list \<Rightarrow> bool" where
  "is_song_folder fs = (\<exists>name \<in> set fs. lower name \<in> set indicators)"

definition create_song_list :: "string \<Rightarrow> dir \<Rightarrow> string list" where
  "create_song_list path tree =
     map fst (filter (\<lambda>(dirpath, _, fs). is_song_folder fs) (os_walk path tree))"

text \<open>
  The folders of a tree, independently of the traversal: \<open>folder_at dirpath t p fs\<close> holds when
  the directory with path \<open>p\<close> lies in the tree \<open>t\<close> rooted at \<open>dirpath\<close> and directly
  contains the files \<open>fs\<close>.
\<close>

inductive folder_at :: "string \<Rightarrow> dir \<Rightarrow> string \<Rightarrow> string list \<Rightarrow> bool" where
  here: "folder_at dirpath (Dir fs subs) dirpath fs"
| below: "(name, d) \<in> set subs \<Longrightarrow> folder_at (path_join dirpath name) d p fs
          \<Longrightarrow> folder_at dirpath (Dir fs' subs) p fs"

section \<open>Tables\<close>

text \<open>
  A pandas table: its index of \<open>(name, difficulty)\<close> keys, one per row, and its columns.
\<close>

record table =
  df_index :: "(string \<times> string) list"
  df_cols :: "string \<rightharpoonup> pyval list"

definition set_col :: "table \<Rightarrow> string \<Rightarrow> pyval list \<Rightarrow> table" where
  "set_col df col vs = df\<lparr>df_cols := (df_cols df)(col \<mapsto> vs)\<rparr>"

text \<open>\<^verbatim>\<open>Series.apply(f)\<close>: \<open>f\<close> on every cell in order; the first exception ends it.\<close>

fun series_apply :: "(pyval \<Rightarrow> error + pyval) \<Rightarrow> pyval list \<Rightarrow> error + pyval list" where
  "series_apply f [] = Inr []"
| "series_apply f (x # xs) =
     (case f x of
        Inl e \<Rightarrow> Inl e
      | Inr y \<Rightarrow> (case series_apply f xs of Inl e \<Rightarrow> Inl e | Inr ys \<Rightarrow> Inr (y # ys)))"

section \<open>Normalization\<close>

text \<open>
  \<open>infinite2zero\<close>: the first branch, \<^verbatim>\<open>type(x).__module__ == np.__name__\<close>, is taken
  by every value whose type is defined in the module \<^verbatim>\<open>numpy\<close>. There an array is
  changed in place by \<^verbatim>\<open>x[~np.isfinite(x)] = 0.0\<close>; a NumPy scalar does not support this
  item assignment, which raises \<^verbatim>\<open>TypeError\<close>. For the other values
  \<^verbatim>\<open>math.isfinite(x)\<close> converts \<open>x\<close> to a float: an int whose magnitude rounds to
  \<open>2 ^ 1024\<close> raises \<^verbatim>\<open>OverflowError\<close>, a string raises \<^verbatim>\<open>TypeError\<close>.
\<close>

fun infinite2zero :: "pyval \<Rightarrow> error + pyval" where
  "infinite2zero (NpArray xs) = Inr (NpArray (map (\<lambda>v. if isfinite v then v else Fin 0) xs))"
| "infinite2zero (NpScalar v) = Inl TypeError"
| "infinite2zero (PyFloat v) = (if \<not> isfinite v then Inr (PyFloat (Fin 0)) else Inr (PyFloat v))"
| "infinite2zero (PyInt n) = (if int_too_large n then Inl OverflowError else Inr (PyInt n))"
| "infinite2zero (PyStr s) = Inl TypeError"

text \<open>
  \<^verbatim>\<open>np.stack(values).mean(0)\<close> and \<^verbatim>\<open>.std(0)\<close>: the statistic over the rows, for a
  column of scalars a scalar, for a column of equally long arrays an array, component by
  component. NumPy's \<^verbatim>\<open>std\<close> divides by the number of rows.
\<close>

definition np_mean :: "fl list \<Rightarrow> fl" where
  "np_mean xs = fl_div (foldl fl_add (Fin 0) xs) (Fin (real (length xs)))"

definition np_std :: "fl list \<Rightarrow> fl" where
  "np_std xs =
     (let m = np_mean xs
      in fl_sqrt (np_mean (map (\<lambda>x. fl_mul (fl_sub x m) (fl_sub x m)) xs)))"

fun is_scalar :: "pyval \<Rightarrow> bool" where
  "is_scalar (PyFloat _) = True"
| "is_scalar (PyInt _) = True"
| "is_scalar (NpScalar _) = True"
| "is_scalar _ = False"

fun is_array :: "pyval \<Rightarrow> bool" where
  "is_array (NpArray _) = True"
| "is_array _ = False"

fun elems :: "pyval \<Rightarrow> fl list" where
  "elems (PyFloat v) = [v]"
| "elems (PyInt n) = [Fin (of_int n)]"
| "elems (NpArray xs) = xs"
| "elems (PyStr _) = []"
| "elems (NpScalar v) = [v]"

definition stack_stat :: "(fl list \<Rightarrow> fl) \<Rightarrow> pyval list \<Rightarrow> error + pyval" where
  "stack_stat f cells =
     (if cells = [] then Inl ValueError
      else if list_all is_scalar cells then Inr (PyFloat (f (map (\<lambda>c. hd (elems c)) cells)))
      else if list_all is_array cells
              \<and> list_all (\<lambda>c. length (elems c) = length (elems (hd cells))) cells
      then Inr (NpArray (map (\<lambda>j. f (map (\<lambda>c. elems c ! j) cells))
                             [0 ..< length (elems (hd cells))]))
      else if list_all (\<lambda>c. \<not> is_array c) cells then Inl TypeError
      else Inl ValueError)"

record stats =
  mean :: "string \<rightharpoonup> pyval"
  std :: "string \<rightharpoonup> pyval"

text \<open>The files the pipeline reads and writes, and the warnings it logs.\<close>

type_synonym action_model = "string \<rightharpoonup> fl list"

record world =
  normalization_stats_file :: "stats option"
  action_word_model_file :: "action_model option"
  beatmaps_pkl :: "string \<rightharpoonup> table"
  warnings :: "string list"

record config =
  cols_to_normalize :: "string list"
  data_split :: "dbl list"

fun coerce_columns :: "string list \<Rightarrow> table \<Rightarrow> error + table" where
  "coerce_columns [] df = Inr df"
| "coerce_columns (col # rest) df =
     (case df_cols df col of
        None \<Rightarrow> Inl KeyError
      | Some cells \<Rightarrow>
          (case series_apply infinite2zero cells of
             Inl e \<Rightarrow> Inl e
           | Inr cells' \<Rightarrow> coerce_columns rest (set_col df col cells')))"

fun stat_dict :: "(fl list \<Rightarrow> fl) \<Rightarrow> string list \<Rightarrow> table \<Rightarrow> error + (string \<rightharpoonup> pyval)" where
  "stat_dict f [] df = Inr Map.empty"
| "stat_dict f (col # rest) df =
     (case df_cols df col of
        None \<Rightarrow> Inl KeyError
      | Some cells \<Rightarrow>
          (case stack_stat f cells of
             Inl e \<Rightarrow> Inl e
           | Inr v \<Rightarrow>
               (case stat_dict f rest df of
                  Inl e \<Rightarrow> Inl e
                | Inr d \<Rightarrow> Inr (if col \<in> set rest then d else d(col \<mapsto> v)))))"

definition save_normalization_stats :: "table \<Rightarrow> config \<Rightarrow> world \<Rightarrow> error + table \<times> world" where
  "save_normalization_stats df cfg w =
     (case coerce_columns (cols_to_normalize cfg) df of
        Inl e \<Rightarrow> Inl e
      | Inr df' \<Rightarrow>
          (case stat_dict np_mean (cols_to_normalize cfg) df' of
             Inl e \<Rightarrow> Inl e
           | Inr m \<Rightarrow>
               (case stat_dict np_std (cols_to_normalize cfg) df' of
                  Inl e \<Rightarrow> Inl e
                | Inr s \<Rightarrow>
                    Inr (df', w\<lparr>normalization_stats_file := Some \<lparr>mean = m, std = s\<rparr>\<rparr>))))"

text \<open>
  The arithmetic of \<^verbatim>\<open>(x - mean) / (std + 1e-6)\<close> is NumPy's: an array and a scalar, or
  two arrays of equal length (or one of length 1), combine element by element; other shapes
  raise \<^verbatim>\<open>ValueError\<close>, and a string operand raises \<^verbatim>\<open>TypeError\<close>.
\<close>

fun np_binop :: "(fl \<Rightarrow> fl \<Rightarrow> fl) \<Rightarrow> pyval \<Rightarrow> pyval \<Rightarrow> error + pyval" where
  "np_binop f (PyStr _) _ = Inl TypeError"
| "np_binop f _ (PyStr _) = Inl TypeError"
| "np_binop f (NpArray xs) (NpArray ys) =
     (if length xs = length ys then Inr (NpArray (map2 f xs ys))
      else if length ys = 1 then Inr (NpArray (map (\<lambda>x. f x (hd ys)) xs))
      else if length xs = 1 then Inr (NpArray (map (f (hd xs)) ys))
      else Inl ValueError)"
| "np_binop f (NpArray xs) y = Inr (NpArray (map (\<lambda>x. f x (hd (elems y))) xs))"
| "np_binop f x (NpArray ys) = Inr (NpArray (map (f (hd (elems x))) ys))"
| "np_binop f x y = Inr (PyFloat (f (hd (elems x)) (hd (elems y))))"

definition epsilon :: pyval where
  "epsilon = PyFloat (Fin (1 / 1000000))"

definition normalize_cell :: "stats \<Rightarrow> string \<Rightarrow> pyval \<Rightarrow> error + pyval" where
  "normalize_cell st col x =
     (case mean st col of
        None \<Rightarrow> Inl KeyError
      | Some m \<Rightarrow>
          (case np_binop fl_sub x m of
             Inl e \<Rightarrow> Inl e
           | Inr d \<Rightarrow>
               (case std st col of
                  None \<Rightarrow> Inl KeyError
                | Some s \<Rightarrow>
                    (case np_binop fl_add s epsilon of
                       Inl e \<Rightarrow> Inl e
                     | Inr s' \<Rightarrow> np_binop fl_div d s'))))"

fun normalize_loop :: "stats \<Rightarrow> string list \<Rightarrow> table \<Rightarrow> error + table" where
  "normalize_loop st [] df = Inr df"
| "normalize_loop st (col # rest) df =
     (case df_cols df col of
        None \<Rightarrow> Inl KeyError
      | Some cells \<Rightarrow>
          (case series_apply (normalize_cell st col) cells of
             Inl e \<Rightarrow> Inl e
           | Inr cells' \<Rightarrow> normalize_loop st rest (set_col df col cells')))"

text \<open>
  The loop of \<^verbatim>\<open>normalize_columns\<close> runs over the set
  \<^verbatim>\<open>set(cols_to_normalize).intersection(df.columns)\<close>; the columns are taken here in the
  order of the configuration, each once.
\<close>

definition normalize_columns :: "table \<Rightarrow> config \<Rightarrow> world \<Rightarrow> error + table" where
  "normalize_columns df cfg w =
     (case normalization_stats_file w of
        None \<Rightarrow> Inl FileNotFoundError
      | Some st \<Rightarrow>
          normalize_loop st
            (remdups (filter (\<lambda>col. df_cols df col \<noteq> None) (cols_to_normalize cfg))) df)"

section \<open>Assembling a dataset\<close>

text \<open>
  The functions of \<^verbatim>\<open>process/compute.py\<close> and \<^verbatim>\<open>utils/functions.py\<close> and the
  pandas operations around them are parameters of the model: the extraction of one song
  folder (\<open>None\<close> for a failed song), \<^verbatim>\<open>pd.concat\<close>, the two group-wise steps
  \<^verbatim>\<open>df.groupby(['name', 'difficulty']).apply(...)\<close> with \<^verbatim>\<open>add_previous_prediction\<close>
  and \<^verbatim>\<open>generate_snippets\<close>, the dictionary built by \<^verbatim>\<open>create_word_mapping\<close> and
  \<^verbatim>\<open>check_consistency\<close>, which may raise.
\<close>

record externals =
  process_song_folder :: "string \<Rightarrow> nat \<times> nat \<Rightarrow> table option"
  pd_concat :: "table list \<Rightarrow> table"
  add_previous_prediction :: "table \<Rightarrow> table"
  generate_snippets :: "table \<Rightarrow> table"
  create_word_mapping :: "action_model \<Rightarrow> (string \<rightharpoonup> int)"
  check_consistency :: "table \<Rightarrow> error option"

definition log_warning :: "string \<Rightarrow> world \<Rightarrow> world" where
  "log_warning msg w = w\<lparr>warnings := warnings w @ [msg]\<rparr>"

text \<open>
  \<^verbatim>\<open>action_model[df['word'].values].astype('float16')\<close>, split into rows: the vector of
  every word, rounded to binary16; \<^verbatim>\<open>KeyError\<close> for a word without a vector.
\<close>

fun lookup_vectors :: "action_model \<Rightarrow> pyval list \<Rightarrow> error + pyval list" where
  "lookup_vectors model [] = Inr []"
| "lookup_vectors model (PyStr word # rest) =
     (case model word of
        None \<Rightarrow> Inl KeyError
      | Some v \<Rightarrow>
          (case lookup_vectors model rest of
             Inl e \<Rightarrow> Inl e
           | Inr vs \<Rightarrow> Inr (NpArray (map to_float16 v) # vs)))"
| "lookup_vectors model (_ # rest) = Inl KeyError"

fun word_id_of :: "(string \<rightharpoonup> int) \<Rightarrow> pyval \<Rightarrow> pyval" where
  "word_id_of word_id_dict (PyStr word) =
     PyInt (case word_id_dict word of Some i \<Rightarrow> i | None \<Rightarrow> 1)"
| "word_id_of word_id_dict _ = PyInt 1"

definition df_post_processing :: "externals \<Rightarrow> table \<Rightarrow> world \<Rightarrow> error + table \<times> world" where
  "df_post_processing ext df w =
     (case action_word_model_file w of
        Some action_model \<Rightarrow>
          (case df_cols df ''word'' of
             None \<Rightarrow> Inl KeyError
           | Some words \<Rightarrow>
               (if words = [] then Inl ValueError
                else
                  (case lookup_vectors action_model words of
                     Inl e \<Rightarrow> Inl e
                   | Inr vecs \<Rightarrow>
                       (let df1 = set_col df ''word_vec'' vecs;
                            word_id_dict = create_word_mapping ext action_model;
                            df2 = set_col df1 ''word_id'' (map (word_id_of word_id_dict) words)
                        in Inr (add_previous_prediction ext df2, w)))))
      | None \<Rightarrow>
          (let w1 = log_warning
                 ''Could not find action word model [action_word_model_path], skipping word_vec and word_id.'' w;
               df1 = set_col df ''word_vec'' (replicate (length (df_index df)) (PyInt 0));
               df2 = set_col df1 ''word_id'' (replicate (length (df_index df)) (PyInt 0))
           in Inr (add_previous_prediction ext df2, w1)))"

definition songs2dataset ::
  "externals \<Rightarrow> string list \<Rightarrow> world \<Rightarrow> error + table option \<times> world" where
  "songs2dataset ext song_folders w =
     (let folders_to_process = length song_folders;
          inputs = map (\<lambda>(i, s). (s, (i, folders_to_process))) (enumerate 0 song_folders);
          songs = map (\<lambda>(s, progress). process_song_folder ext s progress) inputs;
          songs = map the (filter (\<lambda>x. x \<noteq> None) songs)
      in if length songs = 0
         then Inr (None, log_warning
                ''Dataset creation collected 0 songs. Check if searching in correct folders.'' w)
         else
           (case df_post_processing ext (pd_concat ext songs) w of
              Inl e \<Rightarrow> Inl e
            | Inr (df, w1) \<Rightarrow> Inr (Some (generate_snippets ext df), w1)))"

section \<open>Building the three splits\<close>

definition process_split ::
  "externals \<Rightarrow> config \<Rightarrow> string \<Rightarrow> string list \<Rightarrow> world \<Rightarrow> error + world" where
  "process_split ext cfg phase song_slice w =
     (case songs2dataset ext song_slice w of
        Inl e \<Rightarrow> Inl e
      | Inr (None, w1) \<Rightarrow> Inr (log_warning (''Skipped '' @ phase @ '' dataset. No songs.'') w1)
      | Inr (Some df, w1) \<Rightarrow>
          (case check_consistency ext df of
             Some e \<Rightarrow> Inl e
           | None \<Rightarrow>
               (case (if phase = ''train'' then save_normalization_stats df cfg w1
                      else Inr (df, w1)) of
                  Inl e \<Rightarrow> Inl e
                | Inr (df1, w2) \<Rightarrow>
                    (case normalize_columns df1 cfg w2 of
                       Inl e \<Rightarrow> Inl e
                     | Inr df2 \<Rightarrow> Inr (w2\<lparr>beatmaps_pkl := (beatmaps_pkl w2)(phase \<mapsto> df2)\<rparr>)))))"

fun phase_loop ::
  "externals \<Rightarrow> config \<Rightarrow> string list \<Rightarrow> (string \<times> dbl \<times> dbl) list \<Rightarrow> world \<Rightarrow> error + world"
where
  "phase_loop ext cfg song_folders [] w = Inr w"
| "phase_loop ext cfg song_folders ((phase, split) # rest) w =
     (let n = length song_folders;
          split_from = int_of_product n (fst split);
          split_to = int_of_product n (snd split)
      in case process_split ext cfg phase (py_slice song_folders split_from split_to) w of
           Inl e \<Rightarrow> Inl e
         | Inr w' \<Rightarrow> phase_loop ext cfg song_folders rest w')"

definition generate_datasets :: "externals \<Rightarrow> string list \<Rightarrow> config \<Rightarrow> world \<Rightarrow> error + world" where
  "generate_datasets ext song_folders cfg w =
     phase_loop ext cfg song_folders
       (zip [''train'', ''val'', ''test''] (zip (data_split cfg) (drop 1 (data_split cfg)))) w"

text \<open>
  The same three functions with the call \<^verbatim>\<open>save_normalization_stats(df, config)\<close> of the
  train phase replaced by a routine \<open>save\<close>. With \<open>save_normalization_stats\<close> for \<open>save\<close>
  they are \<open>process_split\<close>, \<open>phase_loop\<close> and \<open>generate_datasets\<close>; a run whose result
  is the same for every \<open>save\<close> does not call it.
\<close>

definition process_split_with ::
  "(table \<Rightarrow> config \<Rightarrow> world \<Rightarrow> error + table \<times> world) \<Rightarrow>
   externals \<Rightarrow> config \<Rightarrow> string \<Rightarrow> string list \<Rightarrow> world \<Rightarrow> error + world" where
  "process_split_with save ext cfg phase song_slice w =
     (case songs2dataset ext song_slice w of
        Inl e \<Rightarrow> Inl e
      | Inr (None, w1) \<Rightarrow> Inr (log_warning (''Skipped '' @ phase @ '' dataset. No songs.'') w1)
      | Inr (Some df, w1) \<Rightarrow>
          (case check_consistency ext df of
             Some e \<Rightarrow> Inl e
           | None \<Rightarrow>
               (case (if phase = ''train'' then save df cfg w1 else Inr (df, w1)) of
                  Inl e \<Rightarrow> Inl e
                | Inr (df1, w2) \<Rightarrow>
                    (case normalize_columns df1 cfg w2 of
                       Inl e \<Rightarrow> Inl e
                     | Inr df2 \<Rightarrow> Inr (w2\<lparr>beatmaps_pkl := (beatmaps_pkl w2)(phase \<mapsto> df2)\<rparr>)))))"

fun phase_loop_with ::
  "(table \<Rightarrow> config \<Rightarrow> world \<Rightarrow> error + table \<times> world) \<Rightarrow>
   externals \<Rightarrow> config \<Rightarrow> string list \<Rightarrow> (string \<times> dbl \<times> dbl) list \<Rightarrow> world \<Rightarrow> error + world"
where
  "phase_loop_with save ext cfg song_folders [] w = Inr w"
| "phase_loop_with save ext cfg song_folders ((phase, split) # rest) w =
     (let n = length song_folders;
          split_from = int_of_product n (fst split);
          split_to = int_of_product n (snd split)
      in case process_split_with save ext cfg phase
                (py_slice song_folders split_from split_to) w of
           Inl e \<Rightarrow> Inl e
         | Inr w' \<Rightarrow> phase_loop_with save ext cfg song_folders rest w')"

definition generate_datasets_with ::
  "(table \<Rightarrow> config \<Rightarrow> world \<Rightarrow> error + table \<times> world) \<Rightarrow>
   externals \<Rightarrow> string list \<Rightarrow> config \<Rightarrow> world \<Rightarrow> error + world" where
  "generate_datasets_with save ext song_folders cfg w =
     phase_loop_with save ext cfg song_folders
       (zip [''train'', ''val'', ''test''] (zip (data_split cfg) (drop 1 (data_split cfg)))) w"

text \<open>The \<open>k\<close>-th split boundary for \<open>n\<close> song folders under the default configuration.\<close>

definition split_bound :: "nat \<Rightarrow> nat \<Rightarrow> nat" where
  "split_bound n k = int_of_product n (default_data_split ! k)"

text \<open>
  The slice \<^verbatim>\<open>song_folders[split_from:split_to]\<close> of the \<open>k\<close>-th phase under the default
  configuration.
\<close>

definition phase_slice :: "'a list \<Rightarrow> nat \<Rightarrow> 'a list" where
  "phase_slice songs k =
     py_slice songs (split_bound (length songs) k) (split_bound (length songs) (k + 1))"

text \<open>A scalar that is not \<^verbatim>\<open>inf\<close>, \<^verbatim>\<open>-inf\<close> or \<^verbatim>\<open>nan\<close>.\<close>

fun finite_scalar :: "pyval \<Rightarrow> bool" where
  "finite_scalar (PyFloat v) = isfinite v"
| "finite_scalar (PyInt _) = True"
| "finite_scalar (NpScalar v) = isfinite v"
| "finite_scalar _ = False"

section \<open>Fitting and transforming\<close>

text \<open>
  The two halves of the normalization as functions of their data alone: \<open>fit\<close> is the
  computation of \<open>save_normalization_stats\<close> before the statistics are written, and
  \<open>transform\<close> is the loop of \<open>normalize_columns\<close> after they are read.
\<close>

definition fit :: "table \<Rightarrow> config \<Rightarrow> error + table \<times> stats" where
  "fit df cfg =
     (case coerce_columns (cols_to_normalize cfg) df of
        Inl e \<Rightarrow> Inl e
      | Inr df' \<Rightarrow>
          (case stat_dict np_mean (cols_to_normalize cfg) df' of
             Inl e \<Rightarrow> Inl e
           | Inr m \<Rightarrow>
               (case stat_dict np_std (cols_to_normalize cfg) df' of
                  Inl e \<Rightarrow> Inl e
                | Inr s \<Rightarrow> Inr (df', \<lparr>mean = m, std = s\<rparr>))))"

definition transform :: "stats \<Rightarrow> table \<Rightarrow> config \<Rightarrow> error + table" where
  "transform st df cfg =
     normalize_loop st
       (remdups (filter (\<lambda>col. df_cols df col \<noteq> None) (cols_to_normalize cfg))) df"

section \<open>Mean and population standard deviation\<close>







text \<open>Two scalars, or two arrays of the same length.\<close>

definition same_shape :: "pyval \<Rightarrow> pyval \<Rightarrow> bool" where
  "same_shape a b =
     ((is_scalar a \<and> is_scalar b)
      \<or> (is_array a \<and> is_array b \<and> length (elems a) = length (elems b)))"

text \<open>The affine map \<^verbatim>\<open>(x - mean) / (std + 1e-6)\<close> on one value.\<close>

definition affine :: "fl \<Rightarrow> fl \<Rightarrow> fl \<Rightarrow> fl" where
  "affine m s x = fl_div (fl_sub x m) (fl_add s (Fin (1 / 1000000)))"

section \<open>An example corpus\<close>

text \<open>
  A small instance of the parameters, for running the pipeline on concrete data: every folder
  yields a one-row table whose \<open>part\<close> value is the length of the folder's name, except
  the folder \<open>bad\<close>, whose extraction fails.
\<close>

definition example_table :: "real \<Rightarrow> table" where
  "example_table x =
     \<lparr>df_index = [(''song'', ''Hard'')],
      df_cols = [''part'' \<mapsto> [PyFloat (Fin x)], ''word'' \<mapsto> [PyStr ''L1'']]\<rparr>"

definition example_concat :: "table list \<Rightarrow> table" where
  "example_concat ts =
     \<lparr>df_index = concat (map df_index ts),
      df_cols =
        [''part'' \<mapsto> concat (map (\<lambda>t. case df_cols t ''part'' of Some v \<Rightarrow> v | None \<Rightarrow> []) ts),
         ''word'' \<mapsto> concat (map (\<lambda>t. case df_cols t ''word'' of Some v \<Rightarrow> v | None \<Rightarrow> []) ts)]\<rparr>"

definition example_ext :: externals where
  "example_ext =
     \<lparr>process_song_folder =
        (\<lambda>s progress. if s = ''bad'' then None else Some (example_table (real (length s)))),
      pd_concat = example_concat,
      add_previous_prediction = (\<lambda>df. df),
      generate_snippets = (\<lambda>df. df),
      create_word_mapping = (\<lambda>model. [''L1'' \<mapsto> 2]),
      check_consistency = (\<lambda>df. None)\<rparr>"

definition example_cfg :: config where
  "example_cfg = \<lparr>cols_to_normalize = [''part''], data_split = default_data_split\<rparr>"

text \<open>The split \<^verbatim>\<open>(0.0, 0.5, 0.75, 1.0)\<close>, for a corpus of four folders.\<close>

definition example_split_cfg :: config where
  "example_split_cfg =
     \<lparr>cols_to_normalize = [''part''],
      data_split = [\<lparr>mant = 0, expo = 0\<rparr>, \<lparr>mant = 1, expo = 1\<rparr>,
                    \<lparr>mant = 3, expo = 2\<rparr>, \<lparr>mant = 1, expo = 0\<rparr>]\<rparr>"

definition empty_world :: world where
  "empty_world =
     \<lparr>normalization_stats_file = None, action_word_model_file = None,
      beatmaps_pkl = Map.empty, warnings = []\<rparr>"

text \<open>Rounding at a fixed position \<open>s\<close>, the step inside \<open>round_to_bits\<close>.\<close>

definition rnd :: "nat \<Rightarrow> nat \<Rightarrow> nat" where
  "rnd s n = (if 2 ^ (s - 1) < n mod 2 ^ s \<or> (n mod 2 ^ s = 2 ^ (s - 1) \<and> odd (n div 2 ^ s))
              then (n div 2 ^ s + 1) * 2 ^ s else (n div 2 ^ s) * 2 ^ s)"

section \<open>Properties of the rounding\<close>

lemma bit_length_less: "n < 2 ^ bit_length n"
proof (induction n rule: bit_length.induct)
  case (1 n)
  show ?case
  proof (cases "n = 0")
    case True
    then show ?thesis by (simp add: bit_length.simps)
  next
    case False
    with 1 have "n div 2 < 2 ^ bit_length (n div 2)" by simp
    then have "n < 2 * 2 ^ bit_length (n div 2)" by linarith
    with False show ?thesis by (simp add: bit_length.simps [of n])
  qed
qed

lemma bit_length_ge: "n \<noteq> 0 \<Longrightarrow> 2 ^ (bit_length n - 1) \<le> n"
proof (induction n rule: bit_length.induct)
  case (1 n)
  show ?case
  proof (cases "n div 2 = 0")
    case True
    with 1(2) have "n = 1" by linarith
    then show ?thesis by (simp add: bit_length.simps)
  next
    case False
    with 1 have "2 ^ (bit_length (n div 2) - 1) \<le> n div 2" by simp
    moreover from False have "bit_length (n div 2) \<noteq> 0"
      by (simp add: bit_length.simps [of "n div 2"])
    ultimately have "2 ^ bit_length (n div 2) \<le> 2 * (n div 2)"
      by (cases "bit_length (n div 2)") simp_all
    then have "2 ^ bit_length (n div 2) \<le> n" by linarith
    with 1(2) show ?thesis by (simp add: bit_length.simps [of n])
  qed
qed

lemma bit_length_mono: "a \<le> b \<Longrightarrow> bit_length a \<le> bit_length b"
proof (induction a arbitrary: b rule: bit_length.induct)
  case (1 a)
  show ?case
  proof (cases "a = 0")
    case True
    then show ?thesis by (simp add: bit_length.simps)
  next
    case False
    with 1(2) have b: "b \<noteq> 0" by simp
    from 1(2) have "a div 2 \<le> b div 2" by (rule div_le_mono)
    with 1(1) False have "bit_length (a div 2) \<le> bit_length (b div 2)" by simp
    with False b show ?thesis by (simp add: bit_length.simps [of a] bit_length.simps [of b])
  qed
qed

lemma round_to_bits_rnd:
  "round_to_bits p n = (if bit_length n - p = 0 then n else rnd (bit_length n - p) n)"
  by (simp add: round_to_bits_def rnd_def Let_def)

lemma rnd_lower: "(n div 2 ^ s) * 2 ^ s \<le> rnd s n"
  by (simp add: rnd_def)

lemma rnd_upper: "rnd s n \<le> (n div 2 ^ s + 1) * 2 ^ s"
  by (simp add: rnd_def)

lemma rnd_mono:
  assumes "a \<le> b"
  shows "rnd s a \<le> rnd s b"
proof -
  have q: "a div 2 ^ s \<le> b div 2 ^ s" using assms by (rule div_le_mono)
  show ?thesis
  proof (cases "a div 2 ^ s = b div 2 ^ s")
    case True
    have "a div 2 ^ s * 2 ^ s + a mod 2 ^ s \<le> b div 2 ^ s * 2 ^ s + b mod 2 ^ s"
      using assms by (simp only: div_mult_mod_eq)
    with True have "a mod 2 ^ s \<le> b mod 2 ^ s" by simp
    with True show ?thesis by (auto simp: rnd_def)
  next
    case False
    with q have "a div 2 ^ s + 1 \<le> b div 2 ^ s" by simp
    then have "(a div 2 ^ s + 1) * 2 ^ s \<le> (b div 2 ^ s) * 2 ^ s"
      by (rule mult_le_mono1)
    with rnd_upper [of s a] rnd_lower [of b s] show ?thesis by linarith
  qed
qed

lemma round_to_bits_upper: "round_to_bits p n \<le> 2 ^ (p + (bit_length n - p))"
proof (cases "bit_length n - p = 0")
  case True
  then have "bit_length n \<le> p" by simp
  then have "(2::nat) ^ bit_length n \<le> 2 ^ p" by (rule power_increasing) simp
  with bit_length_less [of n] have "n \<le> 2 ^ p" by linarith
  with True show ?thesis
    by (simp add: round_to_bits_rnd)
next
  case False
  define s where "s = bit_length n - p"
  from False have bl: "bit_length n = p + s" by (simp add: s_def)
  have "n < 2 ^ p * 2 ^ s" using bit_length_less [of n] by (simp add: bl power_add)
  then have "n div 2 ^ s < 2 ^ p" by (simp add: less_mult_imp_div_less)
  then have "n div 2 ^ s + 1 \<le> 2 ^ p" by simp
  then have "(n div 2 ^ s + 1) * 2 ^ s \<le> 2 ^ p * 2 ^ s" by (rule mult_le_mono1)
  with rnd_upper [of s n] have "rnd s n \<le> 2 ^ (p + s)" by (simp add: power_add)
  with False show ?thesis
    by (simp add: round_to_bits_rnd s_def [symmetric])
qed

lemma round_to_bits_lower:
  assumes "bit_length n - p \<noteq> 0" and "0 < p"
  shows "2 ^ (p + (bit_length n - p)) \<le> 2 * round_to_bits p n"
proof -
  define s where "s = bit_length n - p"
  obtain p' where p: "p = Suc p'" using assms(2) by (cases p) simp_all
  from assms have bl: "bit_length n = p + s" by (simp add: s_def)
  with p have "n \<noteq> 0" by (auto simp: bit_length.simps [of n] split: if_splits)
  from bit_length_ge [OF this] have "2 ^ p' * 2 ^ s \<le> n" by (simp add: bl p power_add)
  then have "2 ^ p' \<le> n div 2 ^ s" by (simp add: less_eq_div_iff_mult_less_eq)
  then have "2 ^ p' * 2 ^ s \<le> (n div 2 ^ s) * 2 ^ s" by (rule mult_le_mono1)
  from this rnd_lower [of n s] have "2 ^ p' * 2 ^ s \<le> rnd s n" by (rule order_trans)
  then have "2 ^ (p + s) \<le> 2 * rnd s n" by (simp add: p power_add)
  with assms(1) show ?thesis
    by (simp add: round_to_bits_rnd s_def [symmetric])
qed

lemma round_to_bits_mono:
  assumes "a \<le> b" and "0 < p"
  shows "round_to_bits p a \<le> round_to_bits p b"
proof -
  define sa where "sa = bit_length a - p"
  define sb where "sb = bit_length b - p"
  have le: "sa \<le> sb" using bit_length_mono [OF assms(1)] by (simp add: sa_def sb_def)
  show ?thesis
  proof (cases "sa = sb")
    case True
    then show ?thesis using assms(1) rnd_mono [OF assms(1), of sb]
      by (simp add: round_to_bits_rnd sa_def [symmetric] sb_def [symmetric])
  next
    case False
    with le have lt: "sa < sb" by simp
    then have "sb \<noteq> 0" by simp
    then have lo: "2 ^ (p + sb) \<le> 2 * round_to_bits p b"
      using round_to_bits_lower [of b p] assms(2) by (simp add: sb_def)
    have up: "round_to_bits p a \<le> 2 ^ (p + sa)"
      using round_to_bits_upper [of p a] by (simp add: sa_def)
    from lt have "Suc (p + sa) \<le> p + sb" by simp
    then have "(2::nat) ^ Suc (p + sa) \<le> 2 ^ (p + sb)" by (rule power_increasing) simp
    with lo up show ?thesis by simp
  qed
qed

lemma round_to_double_mono: "a \<le> b \<Longrightarrow> round_to_double a \<le> round_to_double b"
  by (simp add: round_to_double_def round_to_bits_mono)



lemma bit_length_power: "bit_length (2 ^ k) = Suc k"
proof (induction k)
  case 0
  show ?case by (simp add: bit_length.simps)
next
  case (Suc k)
  then show ?case by (simp add: bit_length.simps [of "2 * 2 ^ k"])
qed

lemma round_to_double_power:
  assumes "53 \<le> k"
  shows "2 ^ k \<le> round_to_double (2 ^ k)"
proof -
  from assms have s: "bit_length (2 ^ k) - 53 \<noteq> 0" by (simp add: bit_length_power)
  from assms have "53 + (bit_length (2 ^ k) - 53) = Suc k" by (simp add: bit_length_power)
  with round_to_bits_lower [OF s] have "2 ^ Suc k \<le> 2 * round_to_bits 53 (2 ^ k)"
    by simp
  then show ?thesis by (simp add: round_to_double_def)
qed

lemma int_too_large_power: "int_too_large (2 ^ 1024)"
proof -
  have "nat \<bar>2 ^ 1024 :: int\<bar> = 2 ^ 1024" by (simp add: nat_power_eq)
  with round_to_double_power [of 1024] show ?thesis
    by (simp only: int_too_large_def)
qed

lemma bit_length_eq:
  assumes "2 ^ k \<le> n" and "n < 2 ^ Suc k"
  shows "bit_length n = Suc k"
proof -
  have "0 < (2::nat) ^ k" by simp
  with assms(1) have n0: "n \<noteq> 0" by linarith
  have "(2::nat) ^ k < 2 ^ bit_length n"
    using assms(1) bit_length_less [of n] by (rule le_less_trans)
  then have a: "k < bit_length n" by (simp only: power_strict_increasing_iff rel_simps)
  have "(2::nat) ^ (bit_length n - 1) < 2 ^ Suc k"
    using bit_length_ge [OF n0] assms(2) by (rule le_less_trans)
  then have "bit_length n - 1 < Suc k" by (simp only: power_strict_increasing_iff rel_simps)
  with a show ?thesis by simp
qed

lemma rnd_tie_odd:
  assumes "0 < s" and "odd q"
  shows "rnd s (q * 2 ^ s + 2 ^ (s - 1)) = (q + 1) * 2 ^ s"
proof -
  have h: "(2::nat) ^ (s - 1) < 2 ^ s" using assms(1) by (simp add: power_strict_increasing_iff)
  then have "(q * 2 ^ s + 2 ^ (s - 1)) div 2 ^ s = q" "(q * 2 ^ s + 2 ^ (s - 1)) mod 2 ^ s = 2 ^ (s - 1)"
    by simp_all
  with assms(2) show ?thesis by (simp add: rnd_def)
qed

lemma rnd_below_half:
  assumes "r < 2 ^ (s - 1)" and "0 < s"
  shows "rnd s (q * 2 ^ s + r) = q * 2 ^ s"
proof -
  have "(2::nat) ^ (s - 1) < 2 ^ s" using assms(2) by (simp add: power_strict_increasing_iff)
  with assms(1) have h: "r < 2 ^ s" by (rule less_trans)
  then have "(q * 2 ^ s + r) div 2 ^ s = q" "(q * 2 ^ s + r) mod 2 ^ s = r"
    by simp_all
  with assms(1) show ?thesis by (simp add: rnd_def)
qed

lemma round_to_double_threshold:
  "round_to_double (2 ^ 1024 - 2 ^ 970) = 2 ^ 1024"
  "round_to_double (2 ^ 1024 - 2 ^ 970 - 1) = (2 ^ 53 - 1) * 2 ^ 971"
proof -
  have e1: "(2::nat) ^ 1024 - 2 ^ 970 = (2 ^ 53 - 1) * 2 ^ 971 + 2 ^ (971 - 1)" by simp
  have e2: "(2::nat) ^ 1024 - 2 ^ 970 - 1 = (2 ^ 53 - 1) * 2 ^ 971 + (2 ^ 970 - 1)" by simp
  have b1: "bit_length (2 ^ 1024 - 2 ^ 970) = Suc 1023"
    by (rule bit_length_eq) simp_all
  have b2: "bit_length (2 ^ 1024 - 2 ^ 970 - 1) = Suc 1023"
    by (rule bit_length_eq) simp_all
  have s: "Suc 1023 - 53 = (971::nat)" by simp
  have o: "odd ((2::nat) ^ 53 - 1)" by simp
  have "round_to_double (2 ^ 1024 - 2 ^ 970) = rnd 971 (2 ^ 1024 - 2 ^ 970)"
    unfolding round_to_double_def round_to_bits_rnd b1 s by simp
  also have "\<dots> = ((2 ^ 53 - 1) + 1) * 2 ^ 971"
    unfolding e1 by (rule rnd_tie_odd [OF _ o]) simp
  also have "\<dots> = 2 ^ 1024" by simp
  finally show "round_to_double (2 ^ 1024 - 2 ^ 970) = 2 ^ 1024" .
  have "round_to_double (2 ^ 1024 - 2 ^ 970 - 1) = rnd 971 (2 ^ 1024 - 2 ^ 970 - 1)"
    unfolding round_to_double_def round_to_bits_rnd b2 s by simp
  also have "\<dots> = (2 ^ 53 - 1) * 2 ^ 971"
    unfolding e2 by (rule rnd_below_half) simp_all
  finally show "round_to_double (2 ^ 1024 - 2 ^ 970 - 1) = (2 ^ 53 - 1) * 2 ^ 971" .
qed

lemma round_to_double_overflow_iff:
  "2 ^ 1024 \<le> round_to_double m \<longleftrightarrow> 2 ^ 1024 - 2 ^ 970 \<le> m"
proof
  assume a: "2 ^ 1024 \<le> round_to_double m"
  show "2 ^ 1024 - 2 ^ 970 \<le> m"
  proof (rule ccontr)
    assume "\<not> 2 ^ 1024 - 2 ^ 970 \<le> m"
    then have "m \<le> 2 ^ 1024 - 2 ^ 970 - 1" by simp
    from round_to_double_mono [OF this]
    have "round_to_double m \<le> (2 ^ 53 - 1) * 2 ^ 971"
      by (simp only: round_to_double_threshold)
    also have "\<dots> < 2 ^ 1024" by simp
    finally show False using a by simp
  qed
next
  assume "2 ^ 1024 - 2 ^ 970 \<le> m"
  from round_to_double_mono [OF this] show "2 ^ 1024 \<le> round_to_double m"
    by (simp only: round_to_double_threshold)
qed

lemma int_too_large_iff: "int_too_large n \<longleftrightarrow> 2 ^ 1024 - 2 ^ 970 \<le> \<bar>n\<bar>"
proof -
  have "(2 ^ 1024 - 2 ^ 970 \<le> nat \<bar>n\<bar>) = (int (2 ^ 1024 - 2 ^ 970) \<le> \<bar>n\<bar>)"
    by (rule le_nat_iff) simp
  also have "int (2 ^ 1024 - 2 ^ 970) = 2 ^ 1024 - 2 ^ 970" by simp
  finally show ?thesis
    by (simp only: int_too_large_def round_to_double_overflow_iff)
qed

subsection \<open>Evaluating the rounding of a numeral\<close>



section \<open>\<open>infinite2zero\<close> on scalars\<close>

text \<open>
  C10 (as amended). \<open>infinite2zero\<close> returns a Python float unchanged when it is finite and
  returns \<open>0.0\<close> when it is \<^verbatim>\<open>inf\<close>, \<^verbatim>\<open>-inf\<close> or \<^verbatim>\<open>nan\<close>. It returns a Python int
  \<open>n\<close> unchanged when \<open>\<bar>n\<bar> < 2 ^ 1024 - 2 ^ 970\<close> and raises \<^verbatim>\<open>OverflowError\<close> for every
  other int. It raises \<^verbatim>\<open>TypeError\<close> for a NumPy scalar. Whenever it returns for a scalar
  argument, the result is a finite scalar, and applying \<open>infinite2zero\<close> to the result
  returns it unchanged.
\<close>

theorem infinite2zero_scalar:
  "infinite2zero (PyFloat v) = Inr (PyFloat (if isfinite v then v else Fin 0))
   \<and> infinite2zero (PyInt n) =
       (if \<bar>n\<bar> < 2 ^ 1024 - 2 ^ 970 then Inr (PyInt n) else Inl OverflowError)
   \<and> infinite2zero (NpScalar v) = Inl TypeError
   \<and> (\<forall>x y. is_scalar x \<and> infinite2zero x = Inr y \<longrightarrow>
          y = (if finite_scalar x then x else PyFloat (Fin 0))
          \<and> finite_scalar y \<and> infinite2zero y = Inr y)"
proof (intro conjI allI impI)
  show "infinite2zero (PyFloat v) = Inr (PyFloat (if isfinite v then v else Fin 0))" by simp
  show "infinite2zero (PyInt n) =
       (if \<bar>n\<bar> < 2 ^ 1024 - 2 ^ 970 then Inr (PyInt n) else Inl OverflowError)"
    by (simp only: infinite2zero.simps int_too_large_iff not_le [symmetric] if_not_P if_P
          split: if_splits) simp
  show "infinite2zero (NpScalar v) = Inl TypeError" by simp
next
  fix x y
  assume a: "is_scalar x \<and> infinite2zero x = Inr y"
  then show "y = (if finite_scalar x then x else PyFloat (Fin 0))"
    and "finite_scalar y" and "infinite2zero y = Inr y"
    by (cases x; auto split: if_splits)+
qed

theorem infinite2zero_scalar_witness:
  "infinite2zero (PyFloat NaN) = Inr (PyFloat (Fin 0))
   \<and> infinite2zero (PyInt 7) = Inr (PyInt 7)
   \<and> is_scalar (PyFloat NaN) \<and> \<not> finite_scalar (PyFloat NaN)
   \<and> finite_scalar (PyFloat (Fin 0))
   \<and> infinite2zero (PyFloat (Fin 0)) = Inr (PyFloat (Fin 0))"
proof -
  note t = infinite2zero_scalar [of NaN 7]
  from t have a: "infinite2zero (PyFloat NaN) = Inr (PyFloat (Fin 0))" by simp
  from t have b: "infinite2zero (PyInt 7) = Inr (PyInt 7)" by simp
  have c: "is_scalar (PyFloat NaN)" by simp
  from t [THEN conjunct2, THEN conjunct2, THEN conjunct2, rule_format,
      of "PyFloat NaN" "PyFloat (Fin 0)"] a c
  have "finite_scalar (PyFloat (Fin 0)) \<and> infinite2zero (PyFloat (Fin 0)) = Inr (PyFloat (Fin 0))"
    by simp
  with a b c show ?thesis by simp
qed

text \<open>
  C10 as stated fails for a finite scalar outside the range of binary64: for the int
  \<open>2 ^ 1024\<close>, \<^verbatim>\<open>math.isfinite\<close> raises \<^verbatim>\<open>OverflowError\<close> and nothing is returned.
\<close>

theorem infinite2zero_large_int:
  "finite_scalar (PyInt (2 ^ 1024)) \<and> infinite2zero (PyInt (2 ^ 1024)) = Inl OverflowError"
  using int_too_large_power by simp


section \<open>The split boundaries\<close>

lemma round_to_double_zero: "round_to_double 0 = 0"
  by (simp add: round_to_double_def round_to_bits_def bit_length.simps)

lemma int_of_product_mono:
  assumes "mant c1 \<le> mant c2" and "expo c1 = expo c2"
  shows "int_of_product n c1 \<le> int_of_product n c2"
proof -
  from assms(1) have "round_to_double n * mant c1 \<le> round_to_double n * mant c2"
    by (rule mult_le_mono2)
  then have "round_to_double (round_to_double n * mant c1)
             \<le> round_to_double (round_to_double n * mant c2)"
    by (rule round_to_double_mono)
  then show ?thesis
    unfolding int_of_product_def assms(2) by (rule div_le_mono)
qed

lemma split_bound_0: "split_bound n 0 = 0"
  by (simp add: split_bound_def default_data_split_def int_of_product_def round_to_double_zero)

lemma split_bound_1_2: "split_bound n 1 \<le> split_bound n 2"
  unfolding split_bound_def default_data_split_def
  by (simp add: int_of_product_mono)

lemma split_bound_2_3: "split_bound n 2 \<le> split_bound n 3"
  unfolding split_bound_def default_data_split_def
  by (simp add: int_of_product_mono)

lemma split_bound_1000:
  "split_bound 1000 1 = 800" "split_bound 1000 2 = 900" "split_bound 1000 3 = 990"
  by (simp_all add: split_bound_def default_data_split_def int_of_product_def
      round_to_double_def round_to_bits_def bit_length.simps Let_def)

lemma py_slice_append:
  assumes "a \<le> b" and "b \<le> c"
  shows "py_slice xs a b @ py_slice xs b c = py_slice xs a c"
proof -
  from assms have "c - a = (b - a) + (c - b)" by simp
  moreover from assms have "drop b xs = drop (b - a) (drop a xs)" by simp
  ultimately show ?thesis by (simp only: py_slice_def take_add)
qed

lemma py_slice_0: "py_slice xs 0 c = take c xs"
  by (simp add: py_slice_def)

lemma py_slice_disjoint:
  assumes "distinct xs" and "b \<le> c"
  shows "set (py_slice xs a b) \<inter> set (py_slice xs c d) = {}"
proof -
  have "set (py_slice xs a b) \<subseteq> set (take b xs)"
  proof (cases "a \<le> b")
    case True
    have "py_slice xs 0 a @ py_slice xs a b = py_slice xs 0 b"
      using True by (intro py_slice_append) simp_all
    then have "take b xs = take a xs @ py_slice xs a b" by (simp add: py_slice_0)
    then show ?thesis by simp
  next
    case False
    then show ?thesis by (simp add: py_slice_def)
  qed
  moreover have "set (py_slice xs c d) \<subseteq> set (drop c xs)"
    by (simp add: py_slice_def set_take_subset)
  moreover have "set (take b xs) \<inter> set (drop c xs) = {}"
  proof -
    from assms(2) have "set (drop c xs) \<subseteq> set (drop b xs)" by (rule set_drop_subset_set_drop)
    moreover from assms(1) have "set (take b xs) \<inter> set (drop b xs) = {}"
      by (metis append_take_drop_id distinct_append)
    ultimately show ?thesis by blast
  qed
  ultimately show ?thesis by blast
qed

lemma phase_slice_eq:
  "phase_slice songs 0 = py_slice songs 0 (split_bound (length songs) 1)"
  "phase_slice songs 1
   = py_slice songs (split_bound (length songs) 1) (split_bound (length songs) 2)"
  "phase_slice songs 2
   = py_slice songs (split_bound (length songs) 2) (split_bound (length songs) 3)"
proof -
  have "(0::nat) + 1 = 1" "(1::nat) + 1 = 2" "(2::nat) + 1 = 3" by simp_all
  then show
    "phase_slice songs 0 = py_slice songs 0 (split_bound (length songs) 1)"
    "phase_slice songs 1
     = py_slice songs (split_bound (length songs) 1) (split_bound (length songs) 2)"
    "phase_slice songs 2
     = py_slice songs (split_bound (length songs) 2) (split_bound (length songs) 3)"
    by (simp_all only: phase_slice_def split_bound_0)
qed

lemma phase_slices_contiguous:
  "phase_slice songs 0 @ phase_slice songs 1 @ phase_slice songs 2
   = take (split_bound (length songs) 3) songs"
proof -
  let ?b = "split_bound (length songs)"
  have "py_slice songs (?b 1) (?b 2) @ py_slice songs (?b 2) (?b 3) = py_slice songs (?b 1) (?b 3)"
    by (rule py_slice_append [OF split_bound_1_2 split_bound_2_3])
  moreover have "py_slice songs 0 (?b 1) @ py_slice songs (?b 1) (?b 3) = py_slice songs 0 (?b 3)"
    using split_bound_1_2 [of "length songs"] split_bound_2_3 [of "length songs"]
    by (intro py_slice_append) simp_all
  ultimately show ?thesis
    by (simp only: phase_slice_eq py_slice_0)
qed

lemma phase_slices_disjoint:
  assumes "distinct songs"
  shows "set (phase_slice songs 0) \<inter> set (phase_slice songs 1) = {}"
    and "set (phase_slice songs 0) \<inter> set (phase_slice songs 2) = {}"
    and "set (phase_slice songs 1) \<inter> set (phase_slice songs 2) = {}"
proof -
  show "set (phase_slice songs 0) \<inter> set (phase_slice songs 1) = {}"
    unfolding phase_slice_eq by (rule py_slice_disjoint [OF assms]) simp
  show "set (phase_slice songs 0) \<inter> set (phase_slice songs 2) = {}"
    unfolding phase_slice_eq by (rule py_slice_disjoint [OF assms]) (rule split_bound_1_2)
  show "set (phase_slice songs 1) \<inter> set (phase_slice songs 2) = {}"
    unfolding phase_slice_eq by (rule py_slice_disjoint [OF assms]) simp
qed

lemma phase_loop_three:
  "phase_loop ext cfg songs [(p1, c0, c1), (p2, c1', c2), (p3, c2', c3)] w =
     (case process_split ext cfg p1
             (py_slice songs (int_of_product (length songs) c0) (int_of_product (length songs) c1)) w of
        Inl e \<Rightarrow> Inl e
      | Inr w1 \<Rightarrow>
          (case process_split ext cfg p2
                  (py_slice songs (int_of_product (length songs) c1')
                     (int_of_product (length songs) c2)) w1 of
             Inl e \<Rightarrow> Inl e
           | Inr w2 \<Rightarrow>
               process_split ext cfg p3
                 (py_slice songs (int_of_product (length songs) c2')
                    (int_of_product (length songs) c3)) w2))"
  by (simp add: Let_def split: sum.splits)

lemma default_data_split_nth:
  "default_data_split ! 0 = \<lparr>mant = 0, expo = 53\<rparr>"
  "default_data_split ! 1 = \<lparr>mant = 7205759403792794, expo = 53\<rparr>"
  "default_data_split ! 2 = \<lparr>mant = 8106479329266893, expo = 53\<rparr>"
  "default_data_split ! 3 = \<lparr>mant = 8917127262193582, expo = 53\<rparr>"
  by (simp_all add: default_data_split_def)

lemma generate_datasets_unfold:
  assumes "data_split cfg = default_data_split"
  shows "generate_datasets ext songs cfg w =
           (case process_split ext cfg ''train'' (phase_slice songs 0) w of
              Inl e \<Rightarrow> Inl e
            | Inr w1 \<Rightarrow>
                (case process_split ext cfg ''val'' (phase_slice songs 1) w1 of
                   Inl e \<Rightarrow> Inl e
                 | Inr w2 \<Rightarrow> process_split ext cfg ''test'' (phase_slice songs 2) w2))"
proof -
  have "zip [''train'', ''val'', ''test''] (zip default_data_split (drop 1 default_data_split))
        = [(''train'', default_data_split ! 0, default_data_split ! 1),
           (''val'', default_data_split ! 1, default_data_split ! 2),
           (''test'', default_data_split ! 2, default_data_split ! 3)]"
    by (simp add: default_data_split_def)
  then show ?thesis
    unfolding generate_datasets_def assms phase_slice_eq
    by (simp only: phase_loop_three split_bound_def [symmetric] split_bound_0)
qed
lemma split_bound_1:
  "split_bound 1 0 = 0" "split_bound 1 1 = 0" "split_bound 1 2 = 0" "split_bound 1 3 = 0"
  by (simp_all add: split_bound_def default_data_split_def int_of_product_def
      round_to_double_def round_to_bits_def bit_length.simps Let_def)

lemma split_bound_12:
  "split_bound 12 0 = 0" "split_bound 12 1 = 9" "split_bound 12 2 = 10" "split_bound 12 3 = 11"
  by (simp_all add: split_bound_def default_data_split_def int_of_product_def
      round_to_double_def round_to_bits_def bit_length.simps Let_def)

lemma songs2dataset_nil:
  "songs2dataset ext [] w =
     Inr (None, log_warning
       ''Dataset creation collected 0 songs. Check if searching in correct folders.'' w)"
  by (simp add: songs2dataset_def enumerate_eq_zip)

lemma process_split_nil:
  "process_split ext cfg phase [] w =
     Inr (log_warning (''Skipped '' @ phase @ '' dataset. No songs.'')
           (log_warning
             ''Dataset creation collected 0 songs. Check if searching in correct folders.'' w))"
  by (simp add: process_split_def songs2dataset_nil)

lemma process_split_train_outcome:
  assumes "process_split ext cfg ''train'' song_slice v = Inr v'"
  shows "case songs2dataset ext song_slice v of
           Inl e \<Rightarrow> False
         | Inr (None, u) \<Rightarrow> v' = log_warning ''Skipped train dataset. No songs.'' u
         | Inr (Some df, u) \<Rightarrow>
             check_consistency ext df = None
             \<and> (\<exists>df1 w2 t. save_normalization_stats df cfg u = Inr (df1, w2)
                  \<and> normalize_columns df1 cfg w2 = Inr t
                  \<and> v' = w2\<lparr>beatmaps_pkl := (beatmaps_pkl w2)(''train'' \<mapsto> t)\<rparr>)"
  using assms
  by (auto simp: process_split_def split: sum.splits option.splits prod.splits)

lemma process_split_other_outcome:
  assumes "process_split ext cfg phase song_slice v = Inr v'" and "phase \<noteq> ''train''"
  shows "case songs2dataset ext song_slice v of
           Inl e \<Rightarrow> False
         | Inr (None, u) \<Rightarrow> v' = log_warning (''Skipped '' @ phase @ '' dataset. No songs.'') u
         | Inr (Some df, u) \<Rightarrow>
             check_consistency ext df = None
             \<and> (\<exists>t. normalize_columns df cfg u = Inr t
                  \<and> v' = u\<lparr>beatmaps_pkl := (beatmaps_pkl u)(phase \<mapsto> t)\<rparr>)"
  using assms
  by (auto simp: process_split_def split: sum.splits option.splits prod.splits)


section \<open>Song discovery finds the marked folders\<close>

lemma os_walk_sound:
  "(p, ds, fs) \<in> set (os_walk dirpath t) \<Longrightarrow> folder_at dirpath t p fs"
proof (induction dirpath t arbitrary: p ds fs rule: os_walk.induct)
  case (1 dirpath fs' subs)
  from "1.prems" consider
    (child) name d where "(name, d) \<in> set subs" "(p, ds, fs) \<in> set (os_walk (path_join dirpath name) d)"
    | (self) "p = dirpath" "fs = fs'"
    by auto
  then show ?case
  proof cases
    case child
    from "1.IH" [OF child(1) refl child(2)] have "folder_at (path_join dirpath name) d p fs" .
    with child(1) show ?thesis by (rule folder_at.below)
  next
    case self
    then show ?thesis by (simp add: folder_at.here)
  qed
qed

lemma os_walk_complete:
  "folder_at dirpath t p fs \<Longrightarrow> \<exists>ds. (p, ds, fs) \<in> set (os_walk dirpath t)"
proof (induction rule: folder_at.induct)
  case (here dirpath fs subs)
  show ?case by auto
next
  case (below name d subs dirpath p fs fs')
  then obtain ds where "(p, ds, fs) \<in> set (os_walk (path_join dirpath name) d)" by blast
  with below(1) have "(p, ds, fs) \<in> set (os_walk dirpath (Dir fs' subs))" by force
  then show ?case ..
qed

lemma is_song_folder_iff:
  "is_song_folder fs \<longleftrightarrow> (\<exists>name \<in> set fs. lower name = ''info.dat'' \<or> lower name = ''info.json'')"
  by (simp add: is_song_folder_def indicators_def)

text \<open>
  C2. \<open>create_song_list\<close> returns exactly the folders of the tree that directly contain a
  file whose lower-cased name is \<^verbatim>\<open>info.dat\<close> or \<^verbatim>\<open>info.json\<close>.
\<close>

theorem create_song_list_exact:
  "p \<in> set (create_song_list path tree) \<longleftrightarrow>
     (\<exists>fs. folder_at path tree p fs
         \<and> (\<exists>name \<in> set fs. lower name = ''info.dat'' \<or> lower name = ''info.json''))"
proof
  assume "p \<in> set (create_song_list path tree)"
  then obtain ds fs where "(p, ds, fs) \<in> set (os_walk path tree)" and "is_song_folder fs"
    by (auto simp: create_song_list_def)
  then show "\<exists>fs. folder_at path tree p fs
         \<and> (\<exists>name \<in> set fs. lower name = ''info.dat'' \<or> lower name = ''info.json'')"
    using os_walk_sound is_song_folder_iff by blast
next
  assume "\<exists>fs. folder_at path tree p fs
         \<and> (\<exists>name \<in> set fs. lower name = ''info.dat'' \<or> lower name = ''info.json'')"
  then obtain fs where "folder_at path tree p fs" and "is_song_folder fs"
    using is_song_folder_iff by blast
  moreover from this(1) obtain ds where "(p, ds, fs) \<in> set (os_walk path tree)"
    using os_walk_complete by blast
  ultimately show "p \<in> set (create_song_list path tree)"
    by (force simp: create_song_list_def)
qed

text \<open>
  A folder with only \<^verbatim>\<open>song.ogg\<close> is left out and a folder with \<^verbatim>\<open>INFO.DAT\<close> is
  returned.
\<close>

theorem create_song_list_exact_witness:
  "create_song_list ''data''
     (Dir [] [(''a'', Dir [''song.ogg''] []), (''b'', Dir [''INFO.DAT'', ''song.ogg''] [])])
   = [''data/b'']
   \<and> (\<exists>fs. folder_at ''data''
          (Dir [] [(''a'', Dir [''song.ogg''] []), (''b'', Dir [''INFO.DAT'', ''song.ogg''] [])])
          ''data/b'' fs
        \<and> (\<exists>name \<in> set fs. lower name = ''info.dat'' \<or> lower name = ''info.json''))"
proof -
  let ?T = "Dir [] [(''a'', Dir [''song.ogg''] []), (''b'', Dir [''INFO.DAT'', ''song.ogg''] [])]"
  have e: "create_song_list ''data'' ?T = [''data/b'']"
    by code_simp
  then have "''data/b'' \<in> set (create_song_list ''data'' ?T)" by simp
  with create_song_list_exact [of "''data/b''" "''data''" ?T] e show ?thesis by blast
qed

section \<open>Empty splits\<close>

lemma all_failed_songs:
  assumes "\<forall>i < length song_folders.
             process_song_folder ext (song_folders ! i) (i, length song_folders) = None"
  shows "filter (\<lambda>x. x \<noteq> None)
           (map (\<lambda>(s, progress). process_song_folder ext s progress)
              (map (\<lambda>(i, s). (s, (i, length song_folders))) (enumerate 0 song_folders))) = []"
  using assms by (auto simp: filter_empty_conv in_set_enumerate_eq)

text \<open>
  C7. When every song folder of a split fails, \<open>songs2dataset\<close> logs a warning and
  returns \<open>None\<close> without raising; \<open>generate_datasets\<close> then logs that the split is
  skipped, writes nothing for it, and goes on with the remaining splits.
\<close>

theorem empty_split_is_skipped:
  assumes "\<forall>i < length song_slice.
             process_song_folder ext (song_slice ! i) (i, length song_slice) = None"
  shows "songs2dataset ext song_slice w =
           Inr (None, log_warning
             ''Dataset creation collected 0 songs. Check if searching in correct folders.'' w)
         \<and> process_split ext cfg phase song_slice w =
             Inr (log_warning (''Skipped '' @ phase @ '' dataset. No songs.'')
                   (log_warning
                     ''Dataset creation collected 0 songs. Check if searching in correct folders.'' w))
         \<and> (py_slice songs (int_of_product (length songs) a) (int_of_product (length songs) b)
              = song_slice \<longrightarrow>
             phase_loop ext cfg songs ((phase, a, b) # rest) w =
               phase_loop ext cfg songs rest
                 (log_warning (''Skipped '' @ phase @ '' dataset. No songs.'')
                   (log_warning
                     ''Dataset creation collected 0 songs. Check if searching in correct folders.'' w)))"
proof -
  have s: "songs2dataset ext song_slice w =
           Inr (None, log_warning
             ''Dataset creation collected 0 songs. Check if searching in correct folders.'' w)"
    unfolding songs2dataset_def Let_def all_failed_songs [OF assms] by simp
  then have p: "process_split ext cfg phase song_slice w =
             Inr (log_warning (''Skipped '' @ phase @ '' dataset. No songs.'')
                   (log_warning
                     ''Dataset creation collected 0 songs. Check if searching in correct folders.'' w))"
    by (simp add: process_split_def)
  from s p show ?thesis by (simp add: Let_def)
qed

theorem empty_split_is_skipped_witness:
  "process_song_folder example_ext ''bad'' (0, 2) = None
   \<and> process_song_folder example_ext ''bad'' (1, 2) = None
   \<and> process_split example_ext example_cfg ''val'' [''bad'', ''bad''] empty_world =
       Inr (empty_world\<lparr>warnings :=
         [''Dataset creation collected 0 songs. Check if searching in correct folders.'',
          ''Skipped val dataset. No songs.'']\<rparr>)"
proof -
  have h: "\<forall>i < length [''bad'', ''bad''].
      process_song_folder example_ext ([''bad'', ''bad''] ! i) (i, length [''bad'', ''bad'']) = None"
    by (auto simp: example_ext_def less_Suc_eq)
  have "process_song_folder example_ext ''bad'' (0, 2) = None"
    and "process_song_folder example_ext ''bad'' (1, 2) = None"
    by (simp_all add: example_ext_def)
  with empty_split_is_skipped [OF h, of empty_world example_cfg "''val''"] show ?thesis
    by (simp add: log_warning_def empty_world_def)
qed
section \<open>Action words\<close>









section \<open>Fitting the statistics\<close>













lemma is_scalar_elems: "is_scalar c \<Longrightarrow> length (elems c) = 1"
  by (cases c) simp_all




lemma save_normalization_stats_fit:
  "save_normalization_stats df cfg w =
     (case fit df cfg of
        Inl e \<Rightarrow> Inl e
      | Inr (df', st) \<Rightarrow> Inr (df', w\<lparr>normalization_stats_file := Some st\<rparr>))"
  by (simp add: save_normalization_stats_def fit_def split: sum.splits)




section \<open>Transforming a table\<close>

lemma normalize_columns_transform:
  "normalize_columns df cfg w =
     (case normalization_stats_file w of
        None \<Rightarrow> Inl FileNotFoundError
      | Some st \<Rightarrow> transform st df cfg)"
  by (simp add: normalize_columns_def transform_def split: option.splits)

lemma series_apply_nth:
  "series_apply f xs = Inr ys \<Longrightarrow>
     length ys = length xs \<and> (\<forall>i < length xs. f (xs ! i) = Inr (ys ! i))"
proof (induction xs arbitrary: ys)
  case Nil
  then show ?case by simp
next
  case (Cons x xs)
  from Cons.prems obtain y ys' where y: "f x = Inr y" and r: "series_apply f xs = Inr ys'"
    and ys: "ys = y # ys'"
    by (auto split: sum.splits)
  from Cons.IH [OF r] have "length ys' = length xs" and "\<forall>i < length xs. f (xs ! i) = Inr (ys' ! i)"
    by simp_all
  with y ys show ?case by (auto simp: nth_Cons split: nat.splits)
qed

lemma normalize_loop_result:
  "distinct cols \<Longrightarrow> normalize_loop st cols df = Inr df' \<Longrightarrow>
     df_index df' = df_index df
     \<and> (\<forall>col. col \<notin> set cols \<longrightarrow> df_cols df' col = df_cols df col)
     \<and> (\<forall>col \<in> set cols. \<exists>cells cells'. df_cols df col = Some cells
            \<and> series_apply (normalize_cell st col) cells = Inr cells'
            \<and> df_cols df' col = Some cells')"
proof (induction cols arbitrary: df)
  case Nil
  then show ?case by simp
next
  case (Cons c rest)
  from Cons.prems(2) obtain cells cells1 where
    c: "df_cols df c = Some cells"
    and a: "series_apply (normalize_cell st c) cells = Inr cells1"
    and r: "normalize_loop st rest (set_col df c cells1) = Inr df'"
    by (auto split: option.splits sum.splits)
  from Cons.prems(1) have d: "distinct rest" and n: "c \<notin> set rest" by simp_all
  let ?df1 = "set_col df c cells1"
  from Cons.IH [OF d r] have
    i: "df_index df' = df_index ?df1"
    and o: "\<forall>col. col \<notin> set rest \<longrightarrow> df_cols df' col = df_cols ?df1 col"
    and m: "\<forall>col \<in> set rest. \<exists>cells cells'. df_cols ?df1 col = Some cells
            \<and> series_apply (normalize_cell st col) cells = Inr cells'
            \<and> df_cols df' col = Some cells'"
    by blast+
  have "\<exists>x x'. df_cols df col = Some x \<and> series_apply (normalize_cell st col) x = Inr x'
         \<and> df_cols df' col = Some x'" if "col \<in> set (c # rest)" for col
  proof (cases "col = c")
    case True
    with o n have "df_cols df' col = Some cells1" by (simp add: set_col_def)
    with c a True show ?thesis by simp
  next
    case False
    with that have "col \<in> set rest" by simp
    with m obtain y y' where "df_cols ?df1 col = Some y"
      "series_apply (normalize_cell st col) y = Inr y'" "df_cols df' col = Some y'" by blast
    with False show ?thesis by (simp add: set_col_def)
  qed
  moreover have "df_index df' = df_index df" using i by (simp add: set_col_def)
  moreover have "\<forall>col. col \<notin> set (c # rest) \<longrightarrow> df_cols df' col = df_cols df col"
    using o by (simp add: set_col_def)
  ultimately show ?case by blast
qed

lemma transform_result:
  assumes "transform st df cfg = Inr df'"
  shows "df_index df' = df_index df
     \<and> (\<forall>col. (col \<in> set (cols_to_normalize cfg) \<and> df_cols df col \<noteq> None \<longrightarrow>
                (\<exists>cells cells'. df_cols df col = Some cells \<and> df_cols df' col = Some cells'
                    \<and> length cells' = length cells
                    \<and> (\<forall>i < length cells. normalize_cell st col (cells ! i) = Inr (cells' ! i))))
             \<and> (\<not> (col \<in> set (cols_to_normalize cfg) \<and> df_cols df col \<noteq> None) \<longrightarrow>
                df_cols df' col = df_cols df col))"
proof -
  let ?cols = "remdups (filter (\<lambda>col. df_cols df col \<noteq> None) (cols_to_normalize cfg))"
  have s: "set ?cols = {col \<in> set (cols_to_normalize cfg). df_cols df col \<noteq> None}" by auto
  from assms have "normalize_loop st ?cols df = Inr df'" by (simp add: transform_def)
  from normalize_loop_result [OF distinct_remdups this]
  have i: "df_index df' = df_index df"
    and o: "\<forall>col. col \<notin> set ?cols \<longrightarrow> df_cols df' col = df_cols df col"
    and m: "\<forall>col \<in> set ?cols. \<exists>cells cells'. df_cols df col = Some cells
            \<and> series_apply (normalize_cell st col) cells = Inr cells'
            \<and> df_cols df' col = Some cells'"
    by blast+
  have "\<exists>cells cells'. df_cols df col = Some cells \<and> df_cols df' col = Some cells'
          \<and> length cells' = length cells
          \<and> (\<forall>i < length cells. normalize_cell st col (cells ! i) = Inr (cells' ! i))"
    if "col \<in> set (cols_to_normalize cfg) \<and> df_cols df col \<noteq> None" for col
  proof -
    from that s have "col \<in> set ?cols" by blast
    with m obtain cells cells' where "df_cols df col = Some cells"
      "series_apply (normalize_cell st col) cells = Inr cells'" "df_cols df' col = Some cells'"
      by blast
    with series_apply_nth [OF this(2)] show ?thesis by simp
  qed
  moreover have "df_cols df' col = df_cols df col"
    if "\<not> (col \<in> set (cols_to_normalize cfg) \<and> df_cols df col \<noteq> None)" for col
  proof -
    from that s have "col \<notin> set ?cols" by blast
    with o show ?thesis by simp
  qed
  ultimately show ?thesis using i by blast
qed

lemma np_binop_same_shape:
  assumes "same_shape a b"
  shows "\<exists>y. np_binop f a b = Inr y \<and> same_shape a y
           \<and> elems y = map2 f (elems a) (elems b)"
proof (cases a)
  case (PyFloat x)
  with assms show ?thesis by (cases b) (simp_all add: same_shape_def)
next
  case (PyInt n)
  with assms show ?thesis by (cases b) (simp_all add: same_shape_def)
next
  case (PyStr s)
  with assms show ?thesis by (simp add: same_shape_def)
next
  case (NpArray xs)
  with assms show ?thesis by (cases b) (simp_all add: same_shape_def)
next
  case (NpScalar x)
  with assms show ?thesis by (cases b) (simp_all add: same_shape_def)
qed

lemma same_shape_length: "same_shape a b \<Longrightarrow> length (elems a) = length (elems b)"
  by (auto simp: same_shape_def is_scalar_elems)

lemma same_shape_sym: "same_shape a b \<Longrightarrow> same_shape b a"
  by (auto simp: same_shape_def)

lemma same_shape_trans: "same_shape a b \<Longrightarrow> same_shape b c \<Longrightarrow> same_shape a c"
  by (cases b) (auto simp: same_shape_def)

lemma np_binop_epsilon:
  assumes "is_scalar s \<or> is_array s"
  shows "\<exists>y. np_binop fl_add s epsilon = Inr y \<and> same_shape s y
        \<and> elems y = map (\<lambda>v. fl_add v (Fin (1 / 1000000))) (elems s)"
  using assms by (cases s) (simp_all add: epsilon_def same_shape_def)

lemma normalize_cell_affine:
  assumes "mean st col = Some m" and "std st col = Some s"
    and "same_shape x m" and "same_shape x s"
  shows "\<exists>y. normalize_cell st col x = Inr y \<and> same_shape x y
           \<and> length (elems y) = length (elems x)
           \<and> (\<forall>j < length (elems x).
                 elems y ! j = affine (elems m ! j) (elems s ! j) (elems x ! j))"
proof -
  from np_binop_same_shape [OF assms(3), of fl_sub] obtain d where
    d: "np_binop fl_sub x m = Inr d" "same_shape x d" "elems d = map2 fl_sub (elems x) (elems m)"
    by blast
  from assms(4) have "is_scalar s \<or> is_array s" by (auto simp: same_shape_def)
  from np_binop_epsilon [OF this] obtain s' where
    s': "np_binop fl_add s epsilon = Inr s'" "same_shape s s'"
      "elems s' = map (\<lambda>v. fl_add v (Fin (1 / 1000000))) (elems s)"
    by blast
  have "same_shape d s'"
    using d(2) assms(4) s'(2) same_shape_sym same_shape_trans by blast
  from np_binop_same_shape [OF this, of fl_div] obtain y where
    y: "np_binop fl_div d s' = Inr y" "same_shape d y" "elems y = map2 fl_div (elems d) (elems s')"
    by blast
  have lm: "length (elems m) = length (elems x)" and ls: "length (elems s) = length (elems x)"
    using same_shape_length [OF assms(3)] same_shape_length [OF assms(4)] by simp_all
  have "normalize_cell st col x = Inr y"
    by (simp add: normalize_cell_def assms(1,2) d(1) s'(1) y(1))
  moreover have "same_shape x y" using d(2) y(2) same_shape_trans by blast
  moreover have "length (elems y) = length (elems x)"
    by (simp add: y(3) d(3) s'(3) lm ls)
  moreover have "\<forall>j < length (elems x).
      elems y ! j = affine (elems m ! j) (elems s ! j) (elems x ! j)"
    by (simp add: y(3) d(3) s'(3) lm ls affine_def)
  ultimately show ?thesis by blast
qed

text \<open>
  C5 (as amended). \<open>normalize_columns\<close> applies \<^verbatim>\<open>(x - mean[col]) / (std[col] + 1e-6)\<close>
  to every cell of exactly the columns that are both configured in \<open>cols_to_normalize\<close> and
  present in the table, element by element where the cell has the shape of the statistics,
  and leaves every other column and the index unchanged.
\<close>

theorem normalize_columns_affine:
  assumes "normalize_columns df cfg w = Inr df'"
  shows "\<exists>st. normalization_stats_file w = Some st \<and> df_index df' = df_index df
     \<and> (\<forall>col.
          (col \<in> set (cols_to_normalize cfg) \<and> df_cols df col \<noteq> None \<longrightarrow>
             (\<exists>cells cells'. df_cols df col = Some cells \<and> df_cols df' col = Some cells'
                \<and> length cells' = length cells
                \<and> (\<forall>i < length cells.
                      normalize_cell st col (cells ! i) = Inr (cells' ! i)
                      \<and> (\<forall>m s. mean st col = Some m \<and> std st col = Some s
                                \<and> same_shape (cells ! i) m \<and> same_shape (cells ! i) s \<longrightarrow>
                            length (elems (cells' ! i)) = length (elems (cells ! i))
                            \<and> (\<forall>j < length (elems (cells ! i)).
                                  elems (cells' ! i) ! j
                                  = affine (elems m ! j) (elems s ! j) (elems (cells ! i) ! j))))))
          \<and> (\<not> (col \<in> set (cols_to_normalize cfg) \<and> df_cols df col \<noteq> None) \<longrightarrow>
               df_cols df' col = df_cols df col))"
proof -
  from assms obtain st where st: "normalization_stats_file w = Some st"
    and t: "transform st df cfg = Inr df'"
    by (auto simp: normalize_columns_transform split: option.splits)
  from transform_result [OF t] have i: "df_index df' = df_index df"
    and c: "\<And>col. col \<in> set (cols_to_normalize cfg) \<and> df_cols df col \<noteq> None \<Longrightarrow>
                (\<exists>cells cells'. df_cols df col = Some cells \<and> df_cols df' col = Some cells'
                    \<and> length cells' = length cells
                    \<and> (\<forall>i < length cells. normalize_cell st col (cells ! i) = Inr (cells' ! i)))"
    and o: "\<And>col. \<not> (col \<in> set (cols_to_normalize cfg) \<and> df_cols df col \<noteq> None) \<Longrightarrow>
                df_cols df' col = df_cols df col"
    by blast+
  have "\<exists>cells cells'. df_cols df col = Some cells \<and> df_cols df' col = Some cells'
                \<and> length cells' = length cells
                \<and> (\<forall>i < length cells.
                      normalize_cell st col (cells ! i) = Inr (cells' ! i)
                      \<and> (\<forall>m s. mean st col = Some m \<and> std st col = Some s
                                \<and> same_shape (cells ! i) m \<and> same_shape (cells ! i) s \<longrightarrow>
                            length (elems (cells' ! i)) = length (elems (cells ! i))
                            \<and> (\<forall>j < length (elems (cells ! i)).
                                  elems (cells' ! i) ! j
                                  = affine (elems m ! j) (elems s ! j) (elems (cells ! i) ! j))))"
    if h: "col \<in> set (cols_to_normalize cfg) \<and> df_cols df col \<noteq> None" for col
  proof -
    from c [OF h] obtain cells cells' where cc: "df_cols df col = Some cells"
      "df_cols df' col = Some cells'" "length cells' = length cells"
      and n: "\<forall>i < length cells. normalize_cell st col (cells ! i) = Inr (cells' ! i)"
      by blast
    have "length (elems (cells' ! i)) = length (elems (cells ! i))
          \<and> (\<forall>j < length (elems (cells ! i)).
                elems (cells' ! i) ! j
                = affine (elems m ! j) (elems s ! j) (elems (cells ! i) ! j))"
      if "i < length cells" and "mean st col = Some m \<and> std st col = Some s
          \<and> same_shape (cells ! i) m \<and> same_shape (cells ! i) s" for i m s
    proof -
      from that(2) normalize_cell_affine [of st col m s "cells ! i"] obtain y where
        "normalize_cell st col (cells ! i) = Inr y"
        "length (elems y) = length (elems (cells ! i))"
        "\<forall>j < length (elems (cells ! i)).
            elems y ! j = affine (elems m ! j) (elems s ! j) (elems (cells ! i) ! j)"
        by blast
      moreover from n that(1) have "normalize_cell st col (cells ! i) = Inr (cells' ! i)" by simp
      ultimately show ?thesis by simp
    qed
    with cc n show ?thesis by blast
  qed
  with st i o show ?thesis by blast
qed

theorem normalize_columns_affine_witness:
  "normalize_columns
     \<lparr>df_index = [(''song'', ''Hard'')],
      df_cols = [''part'' \<mapsto> [PyFloat (Fin 3)], ''prev'' \<mapsto> [PyFloat (Fin 5)]]\<rparr>
     example_cfg
     (empty_world\<lparr>normalization_stats_file :=
        Some \<lparr>mean = [''part'' \<mapsto> PyFloat (Fin 1)], std = [''part'' \<mapsto> PyFloat (Fin 1)]\<rparr>\<rparr>)
   = Inr \<lparr>df_index = [(''song'', ''Hard'')],
          df_cols = [''part'' \<mapsto> [PyFloat (Fin (2000000 / 1000001))],
                     ''prev'' \<mapsto> [PyFloat (Fin 5)]]\<rparr>
   \<and> (\<exists>st. normalization_stats_file
              (empty_world\<lparr>normalization_stats_file :=
                 Some \<lparr>mean = [''part'' \<mapsto> PyFloat (Fin 1)],
                       std = [''part'' \<mapsto> PyFloat (Fin 1)]\<rparr>\<rparr>) = Some st)"
proof -
  let ?df = "\<lparr>df_index = [(''song'', ''Hard'')],
      df_cols = [''part'' \<mapsto> [PyFloat (Fin 3)], ''prev'' \<mapsto> [PyFloat (Fin 5)]]\<rparr>"
  let ?w = "empty_world\<lparr>normalization_stats_file :=
        Some \<lparr>mean = [''part'' \<mapsto> PyFloat (Fin 1)], std = [''part'' \<mapsto> PyFloat (Fin 1)]\<rparr>\<rparr>"
  let ?df' = "\<lparr>df_index = [(''song'', ''Hard'')],
          df_cols = [''part'' \<mapsto> [PyFloat (Fin (2000000 / 1000001))],
                     ''prev'' \<mapsto> [PyFloat (Fin 5)]]\<rparr>"
  have e: "normalize_columns ?df example_cfg ?w = Inr ?df'"
    by (simp add: normalize_columns_def example_cfg_def normalize_cell_def epsilon_def
        fl_sub_def set_col_def fun_upd_twist)
  from normalize_columns_affine [OF e]
  have "\<exists>st. normalization_stats_file ?w = Some st" by (elim exE conjE, intro exI)
  with e show ?thesis by (intro conjI)
qed

text \<open>
  C5 as stated fails when the statistics hold a column that the configuration does not list:
  here \<open>prev\<close> is a column of the table and of the statistics, the affine map would change
  its value \<open>3\<close>, and \<open>normalize_columns\<close> returns the table unchanged.
\<close>

theorem normalize_columns_skips_unconfigured_column:
  "normalize_columns
     \<lparr>df_index = [(''song'', ''Hard'')], df_cols = [''prev'' \<mapsto> [PyFloat (Fin 3)]]\<rparr>
     example_cfg
     (empty_world\<lparr>normalization_stats_file :=
        Some \<lparr>mean = [''part'' \<mapsto> PyFloat (Fin 1), ''prev'' \<mapsto> PyFloat (Fin 1)],
              std = [''part'' \<mapsto> PyFloat (Fin 1), ''prev'' \<mapsto> PyFloat (Fin 1)]\<rparr>\<rparr>)
   = Inr \<lparr>df_index = [(''song'', ''Hard'')], df_cols = [''prev'' \<mapsto> [PyFloat (Fin 3)]]\<rparr>
   \<and> normalize_cell
       \<lparr>mean = [''part'' \<mapsto> PyFloat (Fin 1), ''prev'' \<mapsto> PyFloat (Fin 1)],
        std = [''part'' \<mapsto> PyFloat (Fin 1), ''prev'' \<mapsto> PyFloat (Fin 1)]\<rparr>
       ''prev'' (PyFloat (Fin 3))
     = Inr (PyFloat (Fin (2000000 / 1000001)))"
  by (simp add: normalize_columns_def example_cfg_def normalize_cell_def epsilon_def fl_sub_def)

section \<open>Statistics of a normalized column\<close>
















section \<open>The order of fitting and transforming\<close>

lemma songs2dataset_files:
  assumes "songs2dataset ext song_slice w = Inr (r, w1)"
  shows "normalization_stats_file w1 = normalization_stats_file w"
    and "beatmaps_pkl w1 = beatmaps_pkl w"
    and "action_word_model_file w1 = action_word_model_file w"
  using assms
  by (auto simp: songs2dataset_def df_post_processing_def log_warning_def Let_def
           split: if_splits sum.splits option.splits prod.splits)

lemma process_split_train:
  assumes "songs2dataset ext song_slice w = Inr (Some df, w1)"
  shows "process_split ext cfg ''train'' song_slice w =
           (case check_consistency ext df of
              Some e \<Rightarrow> Inl e
            | None \<Rightarrow>
                (case fit df cfg of
                   Inl e \<Rightarrow> Inl e
                 | Inr (df1, st) \<Rightarrow>
                     (case transform st df1 cfg of
                        Inl e \<Rightarrow> Inl e
                      | Inr t \<Rightarrow>
                          Inr (w1\<lparr>normalization_stats_file := Some st,
                                  beatmaps_pkl := (beatmaps_pkl w1)(''train'' \<mapsto> t)\<rparr>))))"
  using assms
  by (simp add: process_split_def save_normalization_stats_fit normalize_columns_transform
           split: option.splits sum.splits prod.splits)

lemma process_split_other:
  assumes "songs2dataset ext song_slice w = Inr (Some df, w1)" and "phase \<noteq> ''train''"
  shows "process_split ext cfg phase song_slice w =
           (case check_consistency ext df of
              Some e \<Rightarrow> Inl e
            | None \<Rightarrow>
                (case normalization_stats_file w of
                   None \<Rightarrow> Inl FileNotFoundError
                 | Some st \<Rightarrow>
                     (case transform st df cfg of
                        Inl e \<Rightarrow> Inl e
                      | Inr t \<Rightarrow> Inr (w1\<lparr>beatmaps_pkl := (beatmaps_pkl w1)(phase \<mapsto> t)\<rparr>))))"
  using assms songs2dataset_files(1) [OF assms(1)]
  by (simp add: process_split_def normalize_columns_transform
           split: option.splits sum.splits prod.splits)

lemma process_split_other_stats:
  assumes "process_split ext cfg phase song_slice w = Inr w'" and "phase \<noteq> ''train''"
  shows "normalization_stats_file w' = normalization_stats_file w"
proof (cases "songs2dataset ext song_slice w")
  case (Inl e)
  with assms show ?thesis by (simp add: process_split_def)
next
  case (Inr p)
  obtain r w1 where p: "p = (r, w1)" by (cases p)
  note f = songs2dataset_files(1) [OF Inr [unfolded p]]
  show ?thesis
  proof (cases r)
    case None
    with assms Inr p f show ?thesis by (auto simp: process_split_def log_warning_def)
  next
    case (Some df)
    with assms Inr p f show ?thesis
      by (auto simp: process_split_def split: option.splits sum.splits prod.splits)
  qed
qed

lemma generate_datasets_four:
  assumes "data_split cfg = [c0, c1, c2, c3]"
  shows "generate_datasets ext songs cfg w =
           (case process_split ext cfg ''train''
                   (py_slice songs (int_of_product (length songs) c0)
                      (int_of_product (length songs) c1)) w of
              Inl e \<Rightarrow> Inl e
            | Inr w1 \<Rightarrow>
                (case process_split ext cfg ''val''
                        (py_slice songs (int_of_product (length songs) c1)
                           (int_of_product (length songs) c2)) w1 of
                   Inl e \<Rightarrow> Inl e
                 | Inr w2 \<Rightarrow>
                     process_split ext cfg ''test''
                       (py_slice songs (int_of_product (length songs) c2)
                          (int_of_product (length songs) c3)) w2))"
  by (simp add: generate_datasets_def assms Let_def split: sum.splits)

lemma example_slices:
  "py_slice [s0, s1, s2, s3] (int_of_product (length [s0, s1, s2, s3]) \<lparr>mant = 0, expo = 0\<rparr>)
     (int_of_product (length [s0, s1, s2, s3]) \<lparr>mant = 1, expo = 1\<rparr>) = [s0, s1]"
  "py_slice [s0, s1, s2, s3] (int_of_product (length [s0, s1, s2, s3]) \<lparr>mant = 1, expo = 1\<rparr>)
     (int_of_product (length [s0, s1, s2, s3]) \<lparr>mant = 3, expo = 2\<rparr>) = [s2]"
  "py_slice [s0, s1, s2, s3] (int_of_product (length [s0, s1, s2, s3]) \<lparr>mant = 3, expo = 2\<rparr>)
     (int_of_product (length [s0, s1, s2, s3]) \<lparr>mant = 1, expo = 0\<rparr>) = [s3]"
proof -
  have l: "length [s0, s1, s2, s3] = 4" by simp
  show "py_slice [s0, s1, s2, s3] (int_of_product (length [s0, s1, s2, s3]) \<lparr>mant = 0, expo = 0\<rparr>)
     (int_of_product (length [s0, s1, s2, s3]) \<lparr>mant = 1, expo = 1\<rparr>) = [s0, s1]"
    unfolding l
    by (simp add: py_slice_def int_of_product_def round_to_double_def round_to_bits_def
        bit_length.simps Let_def)
  show "py_slice [s0, s1, s2, s3] (int_of_product (length [s0, s1, s2, s3]) \<lparr>mant = 1, expo = 1\<rparr>)
     (int_of_product (length [s0, s1, s2, s3]) \<lparr>mant = 3, expo = 2\<rparr>) = [s2]"
    unfolding l
    by (simp add: py_slice_def int_of_product_def round_to_double_def round_to_bits_def
        bit_length.simps Let_def)
  show "py_slice [s0, s1, s2, s3] (int_of_product (length [s0, s1, s2, s3]) \<lparr>mant = 3, expo = 2\<rparr>)
     (int_of_product (length [s0, s1, s2, s3]) \<lparr>mant = 1, expo = 0\<rparr>) = [s3]"
    unfolding l
    by (simp add: py_slice_def int_of_product_def round_to_double_def round_to_bits_def
        bit_length.simps Let_def)
qed

lemmas example_run_defs =
  process_split_def songs2dataset_def example_ext_def example_table_def example_concat_def
  df_post_processing_def set_col_def Let_def enumerate_eq_zip empty_world_def log_warning_def
  save_normalization_stats_def example_split_cfg_def stack_stat_def np_mean_def np_std_def
  fl_sub_def normalize_columns_def normalize_cell_def epsilon_def

lemma process_split_with_save:
  "process_split_with save_normalization_stats ext cfg phase song_slice w =
     process_split ext cfg phase song_slice w"
  by (simp add: process_split_with_def process_split_def)

lemma phase_loop_with_save:
  "phase_loop_with save_normalization_stats ext cfg songs phases w =
     phase_loop ext cfg songs phases w"
  by (induction phases arbitrary: w)
     (auto simp: process_split_with_save Let_def split: sum.splits)

lemma generate_datasets_with_save:
  "generate_datasets_with save_normalization_stats ext songs cfg w =
     generate_datasets ext songs cfg w"
  by (simp add: generate_datasets_with_def generate_datasets_def phase_loop_with_save)

lemma process_split_with_other:
  "phase \<noteq> ''train'' \<Longrightarrow>
   process_split_with save ext cfg phase song_slice w = process_split ext cfg phase song_slice w"
  by (simp add: process_split_with_def process_split_def
           split: sum.splits option.splits prod.splits)

lemma process_split_with_none:
  "songs2dataset ext song_slice w = Inr (None, w1) \<Longrightarrow>
   process_split_with save ext cfg phase song_slice w = process_split ext cfg phase song_slice w"
  by (simp add: process_split_with_def process_split_def)

lemma generate_datasets_with_four:
  assumes "data_split cfg = [c0, c1, c2, c3]"
  shows "generate_datasets_with save ext songs cfg w =
           (case process_split_with save ext cfg ''train''
                   (py_slice songs (int_of_product (length songs) c0)
                      (int_of_product (length songs) c1)) w of
              Inl e \<Rightarrow> Inl e
            | Inr w1 \<Rightarrow>
                (case process_split_with save ext cfg ''val''
                        (py_slice songs (int_of_product (length songs) c1)
                           (int_of_product (length songs) c2)) w1 of
                   Inl e \<Rightarrow> Inl e
                 | Inr w2 \<Rightarrow>
                     process_split_with save ext cfg ''test''
                       (py_slice songs (int_of_product (length songs) c2)
                          (int_of_product (length songs) c3)) w2))"
  by (simp add: generate_datasets_with_def assms Let_def split: sum.splits)

lemma normalize_loop_first_missing:
  assumes "df_cols df col = Some cells" and "cells \<noteq> []" and "mean st col = None"
  shows "normalize_loop st (col # rest) df = Inl KeyError"
proof -
  from assms(2) obtain x xs where "cells = x # xs" by (cases cells) auto
  with assms show ?thesis by (simp add: normalize_cell_def)
qed

lemma normalize_loop_missing:
  assumes "col \<in> set cols" and "distinct cols" and "\<forall>c \<in> set cols. df_cols df c \<noteq> None"
    and "df_cols df col = Some cells" and "cells \<noteq> []" and "mean st col = None"
  shows "\<exists>e. normalize_loop st cols df = Inl e"
  using assms
proof (induction cols arbitrary: df)
  case Nil
  then show ?case by simp
next
  case (Cons c rest)
  show ?case
  proof (cases "c = col")
    case True
    with normalize_loop_first_missing [OF Cons.prems(4,5,6)] show ?thesis by blast
  next
    case False
    from Cons.prems(3) obtain cs where cs: "df_cols df c = Some cs" by auto
    show ?thesis
    proof (cases "series_apply (normalize_cell st c) cs")
      case (Inl e)
      with cs show ?thesis by simp
    next
      case (Inr cs')
      have "\<exists>e. normalize_loop st rest (set_col df c cs') = Inl e"
      proof (rule Cons.IH)
        show "col \<in> set rest" using Cons.prems(1) False by auto
        show "distinct rest" using Cons.prems(2) by simp
        show "\<forall>c' \<in> set rest. df_cols (set_col df c cs') c' \<noteq> None"
          using Cons.prems(3) by (simp add: set_col_def)
        show "df_cols (set_col df c cs') col = Some cells"
          using Cons.prems(4) False by (simp add: set_col_def)
      qed (rule Cons.prems(5), rule Cons.prems(6))
      with cs Inr show ?thesis by simp
    qed
  qed
qed

lemma remdups_single:
  assumes "xs \<noteq> []" and "\<forall>x \<in> set xs. x = c"
  shows "remdups xs = [c]"
  using assms
proof (induction xs)
  case Nil
  then show ?case by simp
next
  case (Cons x xs)
  then have x: "x = c" by simp
  show ?case
  proof (cases "xs = []")
    case True
    with x show ?thesis by simp
  next
    case False
    then obtain y where "y \<in> set xs" by (cases xs) auto
    with Cons.prems(2) have "c \<in> set xs" by auto
    moreover have "remdups xs = [c]" using Cons.IH False Cons.prems(2) by simp
    ultimately show ?thesis using x by simp
  qed
qed

lemma transform_missing:
  assumes "col \<in> set (cols_to_normalize cfg)" and "df_cols df col = Some cells"
    and "cells \<noteq> []" and "mean st col = None"
  shows "\<exists>e. transform st df cfg = Inl e"
    and "(\<forall>c \<in> set (cols_to_normalize cfg). c \<noteq> col \<longrightarrow> df_cols df c = None) \<Longrightarrow>
         transform st df cfg = Inl KeyError"
proof -
  let ?cols = "remdups (filter (\<lambda>c. df_cols df c \<noteq> None) (cols_to_normalize cfg))"
  have "col \<in> set ?cols" using assms(1,2) by simp
  moreover have "distinct ?cols" by simp
  moreover have "\<forall>c \<in> set ?cols. df_cols df c \<noteq> None" by simp
  ultimately show "\<exists>e. transform st df cfg = Inl e"
    unfolding transform_def using assms(2,3,4) by (rule normalize_loop_missing)
  assume only: "\<forall>c \<in> set (cols_to_normalize cfg). c \<noteq> col \<longrightarrow> df_cols df c = None"
  have "filter (\<lambda>c. df_cols df c \<noteq> None) (cols_to_normalize cfg) \<noteq> []"
    using assms(1,2) by (auto simp: filter_empty_conv)
  moreover have "\<forall>x \<in> set (filter (\<lambda>c. df_cols df c \<noteq> None) (cols_to_normalize cfg)). x = col"
    using only by auto
  ultimately have "?cols = [col]" by (rule remdups_single)
  then show "transform st df cfg = Inl KeyError"
    unfolding transform_def using normalize_loop_first_missing [OF assms(2,3,4)] by simp
qed

text \<open>
  C4. The persisted normalization statistics are a function of the train split alone.
  \<open>save_normalization_stats\<close> on the train table \<open>df\<close> returns the statistics \<open>fit df cfg\<close>
  in every world, whatever the stored beatmap files are. In a run of \<open>generate_datasets\<close>
  that completes, with a non-empty train dataset \<open>df\<close>, these statistics are stored in the
  train phase, the train table is transformed with them, the val and test phases leave the
  statistics file as it is, and a val or test dataset is transformed with the same statistics.
\<close>

theorem train_statistics_only:
  assumes "data_split cfg = [c0, c1, c2, c3]"
    and "songs2dataset ext
           (py_slice songs (int_of_product (length songs) c0) (int_of_product (length songs) c1)) w
         = Inr (Some df, w1)"
    and "generate_datasets ext songs cfg w = Inr wc"
  shows "\<exists>df1 st t wa wb.
           fit df cfg = Inr (df1, st)
         \<and> (\<forall>v. save_normalization_stats df cfg v =
                  Inr (df1, v\<lparr>normalization_stats_file := Some st\<rparr>))
         \<and> transform st df1 cfg = Inr t
         \<and> process_split ext cfg ''train''
              (py_slice songs (int_of_product (length songs) c0)
                 (int_of_product (length songs) c1)) w = Inr wa
         \<and> normalization_stats_file wa = Some st
         \<and> beatmaps_pkl wa ''train'' = Some t
         \<and> process_split ext cfg ''val''
              (py_slice songs (int_of_product (length songs) c1)
                 (int_of_product (length songs) c2)) wa = Inr wb
         \<and> normalization_stats_file wb = Some st
         \<and> process_split ext cfg ''test''
              (py_slice songs (int_of_product (length songs) c2)
                 (int_of_product (length songs) c3)) wb = Inr wc
         \<and> normalization_stats_file wc = Some st
         \<and> (\<forall>dv wv.
               songs2dataset ext
                 (py_slice songs (int_of_product (length songs) c1)
                    (int_of_product (length songs) c2)) wa = Inr (Some dv, wv) \<longrightarrow>
               (\<exists>tv. transform st dv cfg = Inr tv \<and> beatmaps_pkl wb ''val'' = Some tv))
         \<and> (\<forall>dt wt.
               songs2dataset ext
                 (py_slice songs (int_of_product (length songs) c2)
                    (int_of_product (length songs) c3)) wb = Inr (Some dt, wt) \<longrightarrow>
               (\<exists>tt. transform st dt cfg = Inr tt \<and> beatmaps_pkl wc ''test'' = Some tt))"
proof -
  let ?tr = "py_slice songs (int_of_product (length songs) c0) (int_of_product (length songs) c1)"
  let ?va = "py_slice songs (int_of_product (length songs) c1) (int_of_product (length songs) c2)"
  let ?te = "py_slice songs (int_of_product (length songs) c2) (int_of_product (length songs) c3)"
  note g = assms(3) [unfolded generate_datasets_four [OF assms(1)]]
  from g obtain wa where wa: "process_split ext cfg ''train'' ?tr w = Inr wa"
    by (cases "process_split ext cfg ''train'' ?tr w") simp_all
  with g obtain wb where wb: "process_split ext cfg ''val'' ?va wa = Inr wb"
    by (cases "process_split ext cfg ''val'' ?va wa") simp_all
  with g wa have pc: "process_split ext cfg ''test'' ?te wb = Inr wc" by simp
  note tr = wa [unfolded process_split_train [OF assms(2)]]
  from tr have cc: "check_consistency ext df = None"
    by (cases "check_consistency ext df") simp_all
  from tr cc obtain df1 st where f: "fit df cfg = Inr (df1, st)"
    by (cases "fit df cfg") auto
  from tr cc f obtain t where t: "transform st df1 cfg = Inr t"
    by (cases "transform st df1 cfg") auto
  from tr cc f t have wa_eq: "wa = w1\<lparr>normalization_stats_file := Some st,
                                      beatmaps_pkl := (beatmaps_pkl w1)(''train'' \<mapsto> t)\<rparr>"
    by simp
  have sa: "normalization_stats_file wa = Some st" and ba: "beatmaps_pkl wa ''train'' = Some t"
    by (simp_all add: wa_eq)
  have sb: "normalization_stats_file wb = Some st"
    using process_split_other_stats [OF wb] sa by simp
  have sf: "normalization_stats_file wc = Some st"
    using process_split_other_stats [OF pc] sb by simp
  have sv: "\<forall>v. save_normalization_stats df cfg v =
                  Inr (df1, v\<lparr>normalization_stats_file := Some st\<rparr>)"
    by (simp add: save_normalization_stats_fit f)
  have val: "\<exists>tv. transform st dv cfg = Inr tv \<and> beatmaps_pkl wb ''val'' = Some tv"
    if "songs2dataset ext ?va wa = Inr (Some dv, wv)" for dv wv
  proof -
    have "''val'' \<noteq> ''train''" by simp
    note e = wb [unfolded process_split_other [OF that this]]
    from e have c: "check_consistency ext dv = None"
      by (cases "check_consistency ext dv") simp_all
    from e c sa obtain tv where tv: "transform st dv cfg = Inr tv"
      by (cases "transform st dv cfg") auto
    with e c sa have "wb = wv\<lparr>beatmaps_pkl := (beatmaps_pkl wv)(''val'' \<mapsto> tv)\<rparr>" by simp
    then have "beatmaps_pkl wb ''val'' = Some tv" by simp
    with tv show ?thesis by blast
  qed
  have test: "\<exists>tt. transform st dt cfg = Inr tt \<and> beatmaps_pkl wc ''test'' = Some tt"
    if "songs2dataset ext ?te wb = Inr (Some dt, wt)" for dt wt
  proof -
    have "''test'' \<noteq> ''train''" by simp
    note e = pc [unfolded process_split_other [OF that this]]
    from e have c: "check_consistency ext dt = None"
      by (cases "check_consistency ext dt") simp_all
    from e c sb obtain tt where tt: "transform st dt cfg = Inr tt"
      by (cases "transform st dt cfg") auto
    with e c sb have "wc = wt\<lparr>beatmaps_pkl := (beatmaps_pkl wt)(''test'' \<mapsto> tt)\<rparr>" by simp
    then have "beatmaps_pkl wc ''test'' = Some tt" by simp
    with tt show ?thesis by blast
  qed
  from val have val': "\<forall>dv wv. songs2dataset ext ?va wa = Inr (Some dv, wv) \<longrightarrow>
               (\<exists>tv. transform st dv cfg = Inr tv \<and> beatmaps_pkl wb ''val'' = Some tv)"
    by blast
  from test have test': "\<forall>dt wt. songs2dataset ext ?te wb = Inr (Some dt, wt) \<longrightarrow>
               (\<exists>tt. transform st dt cfg = Inr tt \<and> beatmaps_pkl wc ''test'' = Some tt)"
    by blast
  show ?thesis
    by (rule exI [of _ df1], rule exI [of _ st], rule exI [of _ t], rule exI [of _ wa],
        rule exI [of _ wb]) (intro conjI f sv t wa sa ba wb sb pc sf val' test')
qed

theorem train_statistics_only_witness:
  "data_split example_split_cfg =
     [\<lparr>mant = 0, expo = 0\<rparr>, \<lparr>mant = 1, expo = 1\<rparr>, \<lparr>mant = 3, expo = 2\<rparr>, \<lparr>mant = 1, expo = 0\<rparr>]
   \<and> songs2dataset example_ext
       (py_slice [''a'', ''bbb'', ''cc'', ''dddd'']
          (int_of_product (length [''a'', ''bbb'', ''cc'', ''dddd'']) \<lparr>mant = 0, expo = 0\<rparr>)
          (int_of_product (length [''a'', ''bbb'', ''cc'', ''dddd'']) \<lparr>mant = 1, expo = 1\<rparr>))
       empty_world =
     Inr (Some \<lparr>df_index = [(''song'', ''Hard''), (''song'', ''Hard'')],
               df_cols = [''part'' \<mapsto> [PyFloat (Fin 1), PyFloat (Fin 3)],
                          ''word'' \<mapsto> [PyStr ''L1'', PyStr ''L1''],
                          ''word_vec'' \<mapsto> [PyInt 0, PyInt 0],
                          ''word_id'' \<mapsto> [PyInt 0, PyInt 0]]\<rparr>,
          log_warning
            ''Could not find action word model [action_word_model_path], skipping word_vec and word_id.''
            empty_world)
   \<and> (\<exists>wc. generate_datasets example_ext [''a'', ''bbb'', ''cc'', ''dddd''] example_split_cfg
               empty_world = Inr wc
          \<and> normalization_stats_file wc =
              Some \<lparr>mean = [''part'' \<mapsto> PyFloat (Fin 2)], std = [''part'' \<mapsto> PyFloat (Fin 1)]\<rparr>)"
proof -
  let ?df = "\<lparr>df_index = [(''song'', ''Hard''), (''song'', ''Hard'')],
               df_cols = [''part'' \<mapsto> [PyFloat (Fin 1), PyFloat (Fin 3)],
                          ''word'' \<mapsto> [PyStr ''L1'', PyStr ''L1''],
                          ''word_vec'' \<mapsto> [PyInt 0, PyInt 0],
                          ''word_id'' \<mapsto> [PyInt 0, PyInt 0]]\<rparr>"
  have h1: "data_split example_split_cfg =
     [\<lparr>mant = 0, expo = 0\<rparr>, \<lparr>mant = 1, expo = 1\<rparr>, \<lparr>mant = 3, expo = 2\<rparr>, \<lparr>mant = 1, expo = 0\<rparr>]"
    by (simp add: example_split_cfg_def)
  have h2: "songs2dataset example_ext
       (py_slice [''a'', ''bbb'', ''cc'', ''dddd'']
          (int_of_product (length [''a'', ''bbb'', ''cc'', ''dddd'']) \<lparr>mant = 0, expo = 0\<rparr>)
          (int_of_product (length [''a'', ''bbb'', ''cc'', ''dddd'']) \<lparr>mant = 1, expo = 1\<rparr>))
       empty_world =
     Inr (Some ?df, log_warning
            ''Could not find action word model [action_word_model_path], skipping word_vec and word_id.''
            empty_world)"
    unfolding example_slices by (simp add: example_run_defs)
  have "\<exists>wc. generate_datasets example_ext [''a'', ''bbb'', ''cc'', ''dddd''] example_split_cfg
               empty_world = Inr wc"
    unfolding generate_datasets_four [OF h1] example_slices by (simp add: example_run_defs)
  then obtain wc where g: "generate_datasets example_ext [''a'', ''bbb'', ''cc'', ''dddd'']
      example_split_cfg empty_world = Inr wc" ..
  from train_statistics_only [OF h1 h2 g] obtain df1 st where
    "fit ?df example_split_cfg = Inr (df1, st)" "normalization_stats_file wc = Some st"
    by (elim exE conjE) blast
  moreover have "fit ?df example_split_cfg =
      Inr (\<lparr>df_index = [(''song'', ''Hard''), (''song'', ''Hard'')],
             df_cols = [''word'' \<mapsto> [PyStr ''L1'', PyStr ''L1''],
                        ''word_vec'' \<mapsto> [PyInt 0, PyInt 0],
                        ''word_id'' \<mapsto> [PyInt 0, PyInt 0],
                        ''part'' \<mapsto> [PyFloat (Fin 1), PyFloat (Fin 3)]]\<rparr>,
           \<lparr>mean = [''part'' \<mapsto> PyFloat (Fin 2)], std = [''part'' \<mapsto> PyFloat (Fin 1)]\<rparr>)"
    by (simp add: fit_def example_split_cfg_def stack_stat_def fl_sub_def set_col_def
        np_mean_def np_std_def Let_def)
  ultimately have "normalization_stats_file wc =
      Some \<lparr>mean = [''part'' \<mapsto> PyFloat (Fin 2)], std = [''part'' \<mapsto> PyFloat (Fin 1)]\<rparr>"
    by simp
  with g have "\<exists>wc. generate_datasets example_ext [''a'', ''bbb'', ''cc'', ''dddd'']
               example_split_cfg empty_world = Inr wc
          \<and> normalization_stats_file wc =
              Some \<lparr>mean = [''part'' \<mapsto> PyFloat (Fin 2)], std = [''part'' \<mapsto> PyFloat (Fin 1)]\<rparr>"
    by blast
  with h1 h2 show ?thesis by (intro conjI)
qed

section \<open>An empty train split\<close>

text \<open>
  C9 (as amended). When the train split yields no songs, \<open>generate_datasets\<close> skips the fit:
  \<open>save_normalization_stats\<close> is not called in that run (the run is the same whatever
  routine stands in its place) and the statistics file stays as it was. The run goes on with
  the val and test splits, and a val or test dataset is normalized with the statistics that
  the file held before the run. Such a split fails with \<^verbatim>\<open>FileNotFoundError\<close> when there
  is no statistics file; with a file the run fails as well when the file lacks a configured
  column that the dataset has with at least one row, and the error is \<^verbatim>\<open>KeyError\<close> when
  that is the only configured column of the dataset.
\<close>

theorem empty_train_uses_existing_stats:
  assumes "data_split cfg = [c0, c1, c2, c3]"
    and "songs2dataset ext
           (py_slice songs (int_of_product (length songs) c0) (int_of_product (length songs) c1)) w
         = Inr (None, w1)"
  shows "process_split ext cfg ''train''
           (py_slice songs (int_of_product (length songs) c0)
              (int_of_product (length songs) c1)) w
         = Inr (log_warning ''Skipped train dataset. No songs.'' w1)
       \<and> normalization_stats_file (log_warning ''Skipped train dataset. No songs.'' w1)
           = normalization_stats_file w
       \<and> generate_datasets ext songs cfg w =
           (case process_split ext cfg ''val''
                   (py_slice songs (int_of_product (length songs) c1)
                      (int_of_product (length songs) c2))
                   (log_warning ''Skipped train dataset. No songs.'' w1) of
              Inl e \<Rightarrow> Inl e
            | Inr wb \<Rightarrow>
                process_split ext cfg ''test''
                  (py_slice songs (int_of_product (length songs) c2)
                     (int_of_product (length songs) c3)) wb)
       \<and> (\<forall>wc. generate_datasets ext songs cfg w = Inr wc \<longrightarrow>
                normalization_stats_file wc = normalization_stats_file w)
       \<and> (\<forall>dv wv.
             songs2dataset ext
               (py_slice songs (int_of_product (length songs) c1)
                  (int_of_product (length songs) c2))
               (log_warning ''Skipped train dataset. No songs.'' w1) = Inr (Some dv, wv) \<longrightarrow>
             process_split ext cfg ''val''
               (py_slice songs (int_of_product (length songs) c1)
                  (int_of_product (length songs) c2))
               (log_warning ''Skipped train dataset. No songs.'' w1) =
               (case check_consistency ext dv of
                  Some e \<Rightarrow> Inl e
                | None \<Rightarrow>
                    (case normalization_stats_file w of
                       None \<Rightarrow> Inl FileNotFoundError
                     | Some st \<Rightarrow>
                         (case transform st dv cfg of
                            Inl e \<Rightarrow> Inl e
                          | Inr t \<Rightarrow> Inr (wv\<lparr>beatmaps_pkl := (beatmaps_pkl wv)(''val'' \<mapsto> t)\<rparr>)))))
       \<and> (\<forall>wb dt wt.
             process_split ext cfg ''val''
               (py_slice songs (int_of_product (length songs) c1)
                  (int_of_product (length songs) c2))
               (log_warning ''Skipped train dataset. No songs.'' w1) = Inr wb
             \<and> songs2dataset ext
                 (py_slice songs (int_of_product (length songs) c2)
                    (int_of_product (length songs) c3)) wb = Inr (Some dt, wt) \<longrightarrow>
             process_split ext cfg ''test''
               (py_slice songs (int_of_product (length songs) c2)
                  (int_of_product (length songs) c3)) wb =
               (case check_consistency ext dt of
                  Some e \<Rightarrow> Inl e
                | None \<Rightarrow>
                    (case normalization_stats_file w of
                       None \<Rightarrow> Inl FileNotFoundError
                     | Some st \<Rightarrow>
                         (case transform st dt cfg of
                            Inl e \<Rightarrow> Inl e
                          | Inr t \<Rightarrow> Inr (wt\<lparr>beatmaps_pkl := (beatmaps_pkl wt)(''test'' \<mapsto> t)\<rparr>)))))
       \<and> (\<forall>save. generate_datasets_with save ext songs cfg w = generate_datasets ext songs cfg w)
       \<and> (\<forall>dv wv.
             songs2dataset ext
               (py_slice songs (int_of_product (length songs) c1)
                  (int_of_product (length songs) c2))
               (log_warning ''Skipped train dataset. No songs.'' w1) = Inr (Some dv, wv)
             \<and> check_consistency ext dv = None \<and> normalization_stats_file w = None \<longrightarrow>
             generate_datasets ext songs cfg w = Inl FileNotFoundError)
       \<and> (\<forall>wb dt wt.
             process_split ext cfg ''val''
               (py_slice songs (int_of_product (length songs) c1)
                  (int_of_product (length songs) c2))
               (log_warning ''Skipped train dataset. No songs.'' w1) = Inr wb
             \<and> songs2dataset ext
                 (py_slice songs (int_of_product (length songs) c2)
                    (int_of_product (length songs) c3)) wb = Inr (Some dt, wt)
             \<and> check_consistency ext dt = None \<and> normalization_stats_file w = None \<longrightarrow>
             generate_datasets ext songs cfg w = Inl FileNotFoundError)
       \<and> (\<forall>dv wv st col cells.
             songs2dataset ext
               (py_slice songs (int_of_product (length songs) c1)
                  (int_of_product (length songs) c2))
               (log_warning ''Skipped train dataset. No songs.'' w1) = Inr (Some dv, wv)
             \<and> check_consistency ext dv = None \<and> normalization_stats_file w = Some st
             \<and> col \<in> set (cols_to_normalize cfg) \<and> df_cols dv col = Some cells
             \<and> cells \<noteq> [] \<and> mean st col = None \<longrightarrow>
             (\<exists>e. generate_datasets ext songs cfg w = Inl e)
             \<and> ((\<forall>c \<in> set (cols_to_normalize cfg). c \<noteq> col \<longrightarrow> df_cols dv c = None) \<longrightarrow>
                  generate_datasets ext songs cfg w = Inl KeyError))
       \<and> (\<forall>wb dt wt st col cells.
             process_split ext cfg ''val''
               (py_slice songs (int_of_product (length songs) c1)
                  (int_of_product (length songs) c2))
               (log_warning ''Skipped train dataset. No songs.'' w1) = Inr wb
             \<and> songs2dataset ext
                 (py_slice songs (int_of_product (length songs) c2)
                    (int_of_product (length songs) c3)) wb = Inr (Some dt, wt)
             \<and> check_consistency ext dt = None \<and> normalization_stats_file w = Some st
             \<and> col \<in> set (cols_to_normalize cfg) \<and> df_cols dt col = Some cells
             \<and> cells \<noteq> [] \<and> mean st col = None \<longrightarrow>
             (\<exists>e. generate_datasets ext songs cfg w = Inl e)
             \<and> ((\<forall>c \<in> set (cols_to_normalize cfg). c \<noteq> col \<longrightarrow> df_cols dt c = None) \<longrightarrow>
                  generate_datasets ext songs cfg w = Inl KeyError))"
proof -
  let ?tr = "py_slice songs (int_of_product (length songs) c0) (int_of_product (length songs) c1)"
  let ?va = "py_slice songs (int_of_product (length songs) c1) (int_of_product (length songs) c2)"
  let ?te = "py_slice songs (int_of_product (length songs) c2) (int_of_product (length songs) c3)"
  let ?wa = "log_warning ''Skipped train dataset. No songs.'' w1"
  have nv: "''val'' \<noteq> ''train''" and nt: "''test'' \<noteq> ''train''" by simp_all
  have p: "process_split ext cfg ''train'' ?tr w = Inr ?wa"
    using assms(2) by (simp add: process_split_def)
  have s: "normalization_stats_file ?wa = normalization_stats_file w"
    using songs2dataset_files(1) [OF assms(2)] by (simp add: log_warning_def)
  have g: "generate_datasets ext songs cfg w =
           (case process_split ext cfg ''val'' ?va ?wa of
              Inl e \<Rightarrow> Inl e
            | Inr wb \<Rightarrow> process_split ext cfg ''test'' ?te wb)"
    by (simp add: generate_datasets_four [OF assms(1)] p)
  have f: "normalization_stats_file wc = normalization_stats_file w"
    if "generate_datasets ext songs cfg w = Inr wc" for wc
  proof -
    from that g obtain wb where wb: "process_split ext cfg ''val'' ?va ?wa = Inr wb"
      by (cases "process_split ext cfg ''val'' ?va ?wa") simp_all
    with that g have wc: "process_split ext cfg ''test'' ?te wb = Inr wc" by simp
    from process_split_other_stats [OF wc nt] process_split_other_stats [OF wb nv] s
    show ?thesis by simp
  qed
  have v: "process_split ext cfg ''val'' ?va ?wa =
               (case check_consistency ext dv of
                  Some e \<Rightarrow> Inl e
                | None \<Rightarrow>
                    (case normalization_stats_file w of
                       None \<Rightarrow> Inl FileNotFoundError
                     | Some st \<Rightarrow>
                         (case transform st dv cfg of
                            Inl e \<Rightarrow> Inl e
                          | Inr t \<Rightarrow> Inr (wv\<lparr>beatmaps_pkl := (beatmaps_pkl wv)(''val'' \<mapsto> t)\<rparr>))))"
    if "songs2dataset ext ?va ?wa = Inr (Some dv, wv)" for dv wv
    unfolding process_split_other [OF that nv] s by (rule refl)
  have t: "process_split ext cfg ''test'' ?te wb =
               (case check_consistency ext dt of
                  Some e \<Rightarrow> Inl e
                | None \<Rightarrow>
                    (case normalization_stats_file w of
                       None \<Rightarrow> Inl FileNotFoundError
                     | Some st \<Rightarrow>
                         (case transform st dt cfg of
                            Inl e \<Rightarrow> Inl e
                          | Inr t \<Rightarrow> Inr (wt\<lparr>beatmaps_pkl := (beatmaps_pkl wt)(''test'' \<mapsto> t)\<rparr>))))"
    if "process_split ext cfg ''val'' ?va ?wa = Inr wb"
      and "songs2dataset ext ?te wb = Inr (Some dt, wt)" for wb dt wt
  proof -
    have b: "normalization_stats_file wb = normalization_stats_file w"
      using process_split_other_stats [OF that(1) nv] s by simp
    show ?thesis unfolding process_split_other [OF that(2) nt] b by (rule refl)
  qed
  from f have f': "\<forall>wc. generate_datasets ext songs cfg w = Inr wc \<longrightarrow>
                normalization_stats_file wc = normalization_stats_file w"
    by blast
  have ws: "generate_datasets_with save ext songs cfg w = generate_datasets ext songs cfg w"
    for save
    unfolding generate_datasets_with_four [OF assms(1)] generate_datasets_four [OF assms(1)]
      process_split_with_none [OF assms(2)] process_split_with_other [OF nv]
      process_split_with_other [OF nt]
    by (rule refl)
  have nv_file: "generate_datasets ext songs cfg w = Inl FileNotFoundError"
    if "songs2dataset ext ?va ?wa = Inr (Some dv, wv)" and "check_consistency ext dv = None"
      and "normalization_stats_file w = None" for dv wv
    unfolding g v [OF that(1)] using that(2,3) by simp
  have nt_file: "generate_datasets ext songs cfg w = Inl FileNotFoundError"
    if "process_split ext cfg ''val'' ?va ?wa = Inr wb"
      and "songs2dataset ext ?te wb = Inr (Some dt, wt)" and "check_consistency ext dt = None"
      and "normalization_stats_file w = None" for wb dt wt
    unfolding g using that(1) t [OF that(1,2)] that(3,4) by simp
  have kv: "(\<exists>e. generate_datasets ext songs cfg w = Inl e)
       \<and> ((\<forall>c \<in> set (cols_to_normalize cfg). c \<noteq> col \<longrightarrow> df_cols dv c = None) \<longrightarrow>
            generate_datasets ext songs cfg w = Inl KeyError)"
    if "songs2dataset ext ?va ?wa = Inr (Some dv, wv)" and "check_consistency ext dv = None"
      and "normalization_stats_file w = Some st" and "col \<in> set (cols_to_normalize cfg)"
      and "df_cols dv col = Some cells" and "cells \<noteq> []" and "mean st col = None"
    for dv wv st col cells
  proof -
    have e: "generate_datasets ext songs cfg w =
        (case transform st dv cfg of Inl e \<Rightarrow> Inl e
         | Inr t \<Rightarrow> process_split ext cfg ''test'' ?te
                     (wv\<lparr>beatmaps_pkl := (beatmaps_pkl wv)(''val'' \<mapsto> t)\<rparr>))"
      unfolding g v [OF that(1)] using that(2,3) by (simp split: sum.splits)
    from transform_missing(1) [OF that(4,5,6,7)] obtain x where "transform st dv cfg = Inl x"
      by blast
    with e have "\<exists>e. generate_datasets ext songs cfg w = Inl e" by simp
    moreover have "generate_datasets ext songs cfg w = Inl KeyError"
      if "\<forall>c \<in> set (cols_to_normalize cfg). c \<noteq> col \<longrightarrow> df_cols dv c = None"
      using e transform_missing(2) [OF \<open>col \<in> set (cols_to_normalize cfg)\<close>
          \<open>df_cols dv col = Some cells\<close> \<open>cells \<noteq> []\<close> \<open>mean st col = None\<close> that]
      by simp
    ultimately show ?thesis by blast
  qed
  have kt: "(\<exists>e. generate_datasets ext songs cfg w = Inl e)
       \<and> ((\<forall>c \<in> set (cols_to_normalize cfg). c \<noteq> col \<longrightarrow> df_cols dt c = None) \<longrightarrow>
            generate_datasets ext songs cfg w = Inl KeyError)"
    if "process_split ext cfg ''val'' ?va ?wa = Inr wb"
      and "songs2dataset ext ?te wb = Inr (Some dt, wt)" and "check_consistency ext dt = None"
      and "normalization_stats_file w = Some st" and "col \<in> set (cols_to_normalize cfg)"
      and "df_cols dt col = Some cells" and "cells \<noteq> []" and "mean st col = None"
    for wb dt wt st col cells
  proof -
    have e: "generate_datasets ext songs cfg w =
        (case transform st dt cfg of Inl e \<Rightarrow> Inl e
         | Inr t \<Rightarrow> Inr (wt\<lparr>beatmaps_pkl := (beatmaps_pkl wt)(''test'' \<mapsto> t)\<rparr>))"
      unfolding g using that(1) t [OF that(1,2)] that(3,4) by simp
    from transform_missing(1) [OF that(5,6,7,8)] obtain x where "transform st dt cfg = Inl x"
      by blast
    with e have "\<exists>e. generate_datasets ext songs cfg w = Inl e" by simp
    moreover have "generate_datasets ext songs cfg w = Inl KeyError"
      if "\<forall>c \<in> set (cols_to_normalize cfg). c \<noteq> col \<longrightarrow> df_cols dt c = None"
      using e transform_missing(2) [OF \<open>col \<in> set (cols_to_normalize cfg)\<close>
          \<open>df_cols dt col = Some cells\<close> \<open>cells \<noteq> []\<close> \<open>mean st col = None\<close> that]
      by simp
    ultimately show ?thesis by blast
  qed
  from ws have ws': "\<forall>save. generate_datasets_with save ext songs cfg w
      = generate_datasets ext songs cfg w"
    by blast
  show ?thesis
    apply (intro conjI p s g f' ws')
    subgoal by (intro allI impI) (rule v)
    subgoal by (intro allI impI, rule t) simp_all
    subgoal by (intro allI impI, elim conjE) (rule nv_file)
    subgoal by (intro allI impI, elim conjE) (rule nt_file)
    subgoal by (intro allI impI, elim conjE) (rule kv)
    subgoal by (intro allI impI, elim conjE) (rule kt)
    done
qed

theorem empty_train_uses_existing_stats_witness:
  "data_split example_split_cfg =
     [\<lparr>mant = 0, expo = 0\<rparr>, \<lparr>mant = 1, expo = 1\<rparr>, \<lparr>mant = 3, expo = 2\<rparr>, \<lparr>mant = 1, expo = 0\<rparr>]
   \<and> songs2dataset example_ext
       (py_slice [''bad'', ''bad'', ''cc'', ''dddd'']
          (int_of_product (length [''bad'', ''bad'', ''cc'', ''dddd'']) \<lparr>mant = 0, expo = 0\<rparr>)
          (int_of_product (length [''bad'', ''bad'', ''cc'', ''dddd'']) \<lparr>mant = 1, expo = 1\<rparr>))
       (empty_world\<lparr>normalization_stats_file :=
          Some \<lparr>mean = [''part'' \<mapsto> PyFloat (Fin 10)], std = [''part'' \<mapsto> PyFloat (Fin 1)]\<rparr>\<rparr>)
     = Inr (None, log_warning
         ''Dataset creation collected 0 songs. Check if searching in correct folders.''
         (empty_world\<lparr>normalization_stats_file :=
            Some \<lparr>mean = [''part'' \<mapsto> PyFloat (Fin 10)], std = [''part'' \<mapsto> PyFloat (Fin 1)]\<rparr>\<rparr>))
   \<and> (\<exists>wc. generate_datasets example_ext [''bad'', ''bad'', ''cc'', ''dddd''] example_split_cfg
          (empty_world\<lparr>normalization_stats_file :=
             Some \<lparr>mean = [''part'' \<mapsto> PyFloat (Fin 10)], std = [''part'' \<mapsto> PyFloat (Fin 1)]\<rparr>\<rparr>)
          = Inr wc
        \<and> normalization_stats_file wc =
            Some \<lparr>mean = [''part'' \<mapsto> PyFloat (Fin 10)], std = [''part'' \<mapsto> PyFloat (Fin 1)]\<rparr>)"
proof -
  let ?w = "empty_world\<lparr>normalization_stats_file :=
          Some \<lparr>mean = [''part'' \<mapsto> PyFloat (Fin 10)], std = [''part'' \<mapsto> PyFloat (Fin 1)]\<rparr>\<rparr>"
  have h1: "data_split example_split_cfg =
     [\<lparr>mant = 0, expo = 0\<rparr>, \<lparr>mant = 1, expo = 1\<rparr>, \<lparr>mant = 3, expo = 2\<rparr>, \<lparr>mant = 1, expo = 0\<rparr>]"
    by (simp add: example_split_cfg_def)
  have h2: "songs2dataset example_ext
       (py_slice [''bad'', ''bad'', ''cc'', ''dddd'']
          (int_of_product (length [''bad'', ''bad'', ''cc'', ''dddd'']) \<lparr>mant = 0, expo = 0\<rparr>)
          (int_of_product (length [''bad'', ''bad'', ''cc'', ''dddd'']) \<lparr>mant = 1, expo = 1\<rparr>)) ?w
     = Inr (None, log_warning
         ''Dataset creation collected 0 songs. Check if searching in correct folders.'' ?w)"
    unfolding example_slices by (simp add: songs2dataset_def example_ext_def enumerate_eq_zip)
  have "\<exists>wc. generate_datasets example_ext [''bad'', ''bad'', ''cc'', ''dddd''] example_split_cfg ?w
              = Inr wc"
    unfolding generate_datasets_four [OF h1] example_slices by (simp add: example_run_defs)
  then obtain wc where g: "generate_datasets example_ext [''bad'', ''bad'', ''cc'', ''dddd'']
      example_split_cfg ?w = Inr wc" ..
  have "normalization_stats_file wc = normalization_stats_file ?w"
    by (rule empty_train_uses_existing_stats [OF h1 h2, THEN conjunct2, THEN conjunct2,
          THEN conjunct2, THEN conjunct1, rule_format, OF g])
  then have "normalization_stats_file wc =
      Some \<lparr>mean = [''part'' \<mapsto> PyFloat (Fin 10)], std = [''part'' \<mapsto> PyFloat (Fin 1)]\<rparr>"
    by simp
  with g have "\<exists>wc. generate_datasets example_ext [''bad'', ''bad'', ''cc'', ''dddd'']
          example_split_cfg ?w = Inr wc
        \<and> normalization_stats_file wc =
            Some \<lparr>mean = [''part'' \<mapsto> PyFloat (Fin 10)], std = [''part'' \<mapsto> PyFloat (Fin 1)]\<rparr>"
    by blast
  with h1 h2 show ?thesis by (intro conjI)
qed

text \<open>
  The run can fail although a statistics file exists: statistics stored by an earlier run for
  the column \<^verbatim>\<open>mfcc\<close> only do not have the configured column \<^verbatim>\<open>part\<close> of the val
  dataset, and \<^verbatim>\<open>stats['mean'][col]\<close> raises \<^verbatim>\<open>KeyError\<close>.
\<close>

theorem stale_stats_key_error:
  "normalization_stats_file
     (empty_world\<lparr>normalization_stats_file :=
        Some \<lparr>mean = [''mfcc'' \<mapsto> PyFloat (Fin 0)], std = [''mfcc'' \<mapsto> PyFloat (Fin 1)]\<rparr>\<rparr>)
   = Some \<lparr>mean = [''mfcc'' \<mapsto> PyFloat (Fin 0)], std = [''mfcc'' \<mapsto> PyFloat (Fin 1)]\<rparr>
   \<and> generate_datasets example_ext [''bad'', ''bad'', ''cc'', ''dddd''] example_split_cfg
       (empty_world\<lparr>normalization_stats_file :=
          Some \<lparr>mean = [''mfcc'' \<mapsto> PyFloat (Fin 0)], std = [''mfcc'' \<mapsto> PyFloat (Fin 1)]\<rparr>\<rparr>)
     = Inl KeyError"
proof -
  have h1: "data_split example_split_cfg =
     [\<lparr>mant = 0, expo = 0\<rparr>, \<lparr>mant = 1, expo = 1\<rparr>, \<lparr>mant = 3, expo = 2\<rparr>, \<lparr>mant = 1, expo = 0\<rparr>]"
    by (simp add: example_split_cfg_def)
  show ?thesis
    unfolding generate_datasets_four [OF h1] example_slices by (simp add: example_run_defs)
qed

section \<open>The three phases of a run\<close>

text \<open>
  C1 (as amended). With the default \<^verbatim>\<open>data_split = (0.0, 0.8, 0.9, 0.99)\<close>,
  \<open>generate_datasets\<close> runs exactly three phases, train, val and test, in this order, on
  the slices \<^verbatim>\<open>songs[int(N*0.0):int(N*0.8)]\<close>, \<^verbatim>\<open>songs[int(N*0.8):int(N*0.9)]\<close> and
  \<^verbatim>\<open>songs[int(N*0.9):int(N*0.99)]\<close>. The three slices are contiguous: together they
  are the first \<^verbatim>\<open>int(N*0.99)\<close> songs. They are pairwise disjoint when the folders are
  distinct. For \<open>N = 1000\<close> they are \<^verbatim>\<open>songs[0:800]\<close>, \<^verbatim>\<open>songs[800:900]\<close> and
  \<^verbatim>\<open>songs[900:990]\<close>, and \<^verbatim>\<open>songs[990:1000]\<close> appear in no split. In a run that
  completes, a phase whose slice yields a dataset normalizes it (the train phase after
  fitting the statistics on it) and writes it as the split of that phase; a phase whose slice
  yields no song only logs a warning and writes nothing. An empty slice yields no song, and for
  \<open>N = 1\<close> all three slices are empty: the run logs six warnings and builds no split.
\<close>

theorem generate_datasets_default_splits:
  assumes "data_split cfg = default_data_split"
  shows "generate_datasets ext songs cfg w =
           (case process_split ext cfg ''train'' (phase_slice songs 0) w of
              Inl e \<Rightarrow> Inl e
            | Inr w1 \<Rightarrow>
                (case process_split ext cfg ''val'' (phase_slice songs 1) w1 of
                   Inl e \<Rightarrow> Inl e
                 | Inr w2 \<Rightarrow> process_split ext cfg ''test'' (phase_slice songs 2) w2))
         \<and> phase_slice songs 0 @ phase_slice songs 1 @ phase_slice songs 2
             = take (split_bound (length songs) 3) songs
         \<and> (distinct songs \<longrightarrow>
               set (phase_slice songs 0) \<inter> set (phase_slice songs 1) = {}
             \<and> set (phase_slice songs 0) \<inter> set (phase_slice songs 2) = {}
             \<and> set (phase_slice songs 1) \<inter> set (phase_slice songs 2) = {})
         \<and> (length songs = 1000 \<longrightarrow>
               phase_slice songs 0 = py_slice songs 0 800
             \<and> phase_slice songs 1 = py_slice songs 800 900
             \<and> phase_slice songs 2 = py_slice songs 900 990)
         \<and> (length songs = 1000 \<and> distinct songs \<longrightarrow>
               set (py_slice songs 990 1000)
               \<inter> set (phase_slice songs 0 @ phase_slice songs 1 @ phase_slice songs 2) = {})
         \<and> (\<forall>wc. generate_datasets ext songs cfg w = Inr wc \<longrightarrow>
               (\<exists>wa wb.
                  process_split ext cfg ''train'' (phase_slice songs 0) w = Inr wa
                \<and> process_split ext cfg ''val'' (phase_slice songs 1) wa = Inr wb
                \<and> process_split ext cfg ''test'' (phase_slice songs 2) wb = Inr wc
                \<and> (case songs2dataset ext (phase_slice songs 0) w of
                      Inl e \<Rightarrow> False
                    | Inr (None, u) \<Rightarrow> wa = log_warning ''Skipped train dataset. No songs.'' u
                    | Inr (Some df, u) \<Rightarrow>
                        check_consistency ext df = None
                        \<and> (\<exists>df1 w2 t. save_normalization_stats df cfg u = Inr (df1, w2)
                             \<and> normalize_columns df1 cfg w2 = Inr t
                             \<and> wa = w2\<lparr>beatmaps_pkl := (beatmaps_pkl w2)(''train'' \<mapsto> t)\<rparr>))
                \<and> (case songs2dataset ext (phase_slice songs 1) wa of
                      Inl e \<Rightarrow> False
                    | Inr (None, u) \<Rightarrow> wb = log_warning ''Skipped val dataset. No songs.'' u
                    | Inr (Some df, u) \<Rightarrow>
                        check_consistency ext df = None
                        \<and> (\<exists>t. normalize_columns df cfg u = Inr t
                             \<and> wb = u\<lparr>beatmaps_pkl := (beatmaps_pkl u)(''val'' \<mapsto> t)\<rparr>))
                \<and> (case songs2dataset ext (phase_slice songs 2) wb of
                      Inl e \<Rightarrow> False
                    | Inr (None, u) \<Rightarrow> wc = log_warning ''Skipped test dataset. No songs.'' u
                    | Inr (Some df, u) \<Rightarrow>
                        check_consistency ext df = None
                        \<and> (\<exists>t. normalize_columns df cfg u = Inr t
                             \<and> wc = u\<lparr>beatmaps_pkl := (beatmaps_pkl u)(''test'' \<mapsto> t)\<rparr>))))
         \<and> (\<forall>k v. phase_slice songs k = [] \<longrightarrow>
               songs2dataset ext (phase_slice songs k) v =
                 Inr (None, log_warning
                   ''Dataset creation collected 0 songs. Check if searching in correct folders.'' v))
         \<and> (length songs = 1 \<longrightarrow>
               phase_slice songs 0 = [] \<and> phase_slice songs 1 = [] \<and> phase_slice songs 2 = []
             \<and> generate_datasets ext songs cfg w =
                 Inr (w\<lparr>warnings := warnings w @
                   [''Dataset creation collected 0 songs. Check if searching in correct folders.'',
                    ''Skipped train dataset. No songs.'',
                    ''Dataset creation collected 0 songs. Check if searching in correct folders.'',
                    ''Skipped val dataset. No songs.'',
                    ''Dataset creation collected 0 songs. Check if searching in correct folders.'',
                    ''Skipped test dataset. No songs.'']\<rparr>))"
proof (intro conjI impI allI)
  show "generate_datasets ext songs cfg w =
           (case process_split ext cfg ''train'' (phase_slice songs 0) w of
              Inl e \<Rightarrow> Inl e
            | Inr w1 \<Rightarrow>
                (case process_split ext cfg ''val'' (phase_slice songs 1) w1 of
                   Inl e \<Rightarrow> Inl e
                 | Inr w2 \<Rightarrow> process_split ext cfg ''test'' (phase_slice songs 2) w2))"
    by (rule generate_datasets_unfold [OF assms])
  show "phase_slice songs 0 @ phase_slice songs 1 @ phase_slice songs 2
        = take (split_bound (length songs) 3) songs"
    by (rule phase_slices_contiguous)
next
  assume "distinct songs"
  then show "set (phase_slice songs 0) \<inter> set (phase_slice songs 1) = {}"
    and "set (phase_slice songs 0) \<inter> set (phase_slice songs 2) = {}"
    and "set (phase_slice songs 1) \<inter> set (phase_slice songs 2) = {}"
    by (rule phase_slices_disjoint)+
next
  assume n: "length songs = 1000"
  show "phase_slice songs 0 = py_slice songs 0 800"
    and "phase_slice songs 1 = py_slice songs 800 900"
    and "phase_slice songs 2 = py_slice songs 900 990"
    by (simp_all only: phase_slice_eq n split_bound_1000)
next
  assume "length songs = 1000 \<and> distinct songs"
  then have n: "length songs = 1000" and d: "distinct songs" by simp_all
  have "phase_slice songs 0 @ phase_slice songs 1 @ phase_slice songs 2 = py_slice songs 0 990"
    by (simp only: phase_slices_contiguous n split_bound_1000 py_slice_0)
  moreover have "set (py_slice songs 990 1000) \<inter> set (py_slice songs 0 990) = {}"
    using py_slice_disjoint [OF d, of 990 990 0 1000] by blast
  ultimately show "set (py_slice songs 990 1000)
      \<inter> set (phase_slice songs 0 @ phase_slice songs 1 @ phase_slice songs 2) = {}"
    by simp
next
  fix wc
  assume r: "generate_datasets ext songs cfg w = Inr wc"
  note g = r [unfolded generate_datasets_unfold [OF assms]]
  from g obtain wa where wa: "process_split ext cfg ''train'' (phase_slice songs 0) w = Inr wa"
    by (cases "process_split ext cfg ''train'' (phase_slice songs 0) w") simp_all
  with g obtain wb where wb: "process_split ext cfg ''val'' (phase_slice songs 1) wa = Inr wb"
    by (cases "process_split ext cfg ''val'' (phase_slice songs 1) wa") simp_all
  with g wa have pc: "process_split ext cfg ''test'' (phase_slice songs 2) wb = Inr wc" by simp
  have nv: "''val'' \<noteq> ''train''" and nt: "''test'' \<noteq> ''train''" by simp_all
  note a = process_split_train_outcome [OF wa]
  note b = process_split_other_outcome [OF wb nv, unfolded append.simps]
  note c = process_split_other_outcome [OF pc nt, unfolded append.simps]
  show "\<exists>wa wb.
                  process_split ext cfg ''train'' (phase_slice songs 0) w = Inr wa
                \<and> process_split ext cfg ''val'' (phase_slice songs 1) wa = Inr wb
                \<and> process_split ext cfg ''test'' (phase_slice songs 2) wb = Inr wc
                \<and> (case songs2dataset ext (phase_slice songs 0) w of
                      Inl e \<Rightarrow> False
                    | Inr (None, u) \<Rightarrow> wa = log_warning ''Skipped train dataset. No songs.'' u
                    | Inr (Some df, u) \<Rightarrow>
                        check_consistency ext df = None
                        \<and> (\<exists>df1 w2 t. save_normalization_stats df cfg u = Inr (df1, w2)
                             \<and> normalize_columns df1 cfg w2 = Inr t
                             \<and> wa = w2\<lparr>beatmaps_pkl := (beatmaps_pkl w2)(''train'' \<mapsto> t)\<rparr>))
                \<and> (case songs2dataset ext (phase_slice songs 1) wa of
                      Inl e \<Rightarrow> False
                    | Inr (None, u) \<Rightarrow> wb = log_warning ''Skipped val dataset. No songs.'' u
                    | Inr (Some df, u) \<Rightarrow>
                        check_consistency ext df = None
                        \<and> (\<exists>t. normalize_columns df cfg u = Inr t
                             \<and> wb = u\<lparr>beatmaps_pkl := (beatmaps_pkl u)(''val'' \<mapsto> t)\<rparr>))
                \<and> (case songs2dataset ext (phase_slice songs 2) wb of
                      Inl e \<Rightarrow> False
                    | Inr (None, u) \<Rightarrow> wc = log_warning ''Skipped test dataset. No songs.'' u
                    | Inr (Some df, u) \<Rightarrow>
                        check_consistency ext df = None
                        \<and> (\<exists>t. normalize_columns df cfg u = Inr t
                             \<and> wc = u\<lparr>beatmaps_pkl := (beatmaps_pkl u)(''test'' \<mapsto> t)\<rparr>))"
    by (rule exI [of _ wa], rule exI [of _ wb]) (intro conjI wa wb pc a b c)
next
  fix k v
  assume "phase_slice songs k = []"
  then show "songs2dataset ext (phase_slice songs k) v =
                 Inr (None, log_warning
                   ''Dataset creation collected 0 songs. Check if searching in correct folders.'' v)"
    by (simp add: songs2dataset_nil)
next
  assume n: "length songs = 1"
  have z: "py_slice songs 0 0 = []" by (simp add: py_slice_def)
  show e0: "phase_slice songs 0 = []" and e1: "phase_slice songs 1 = []"
    and e2: "phase_slice songs 2 = []"
    by (simp_all only: phase_slice_eq n split_bound_1 z)
  show "generate_datasets ext songs cfg w =
                 Inr (w\<lparr>warnings := warnings w @
                   [''Dataset creation collected 0 songs. Check if searching in correct folders.'',
                    ''Skipped train dataset. No songs.'',
                    ''Dataset creation collected 0 songs. Check if searching in correct folders.'',
                    ''Skipped val dataset. No songs.'',
                    ''Dataset creation collected 0 songs. Check if searching in correct folders.'',
                    ''Skipped test dataset. No songs.'']\<rparr>)"
    unfolding generate_datasets_unfold [OF assms] e0 e1 e2 process_split_nil
    by (simp add: log_warning_def)
qed

theorem generate_datasets_default_splits_witness:
  "(let songs = map (\<lambda>i. replicate i (CHR ''a'')) [0..<1000];
        cfg = \<lparr>cols_to_normalize = [''mfcc''], data_split = default_data_split\<rparr>
    in data_split cfg = default_data_split \<and> length songs = 1000 \<and> distinct songs
       \<and> phase_slice songs 0 = py_slice songs 0 800
       \<and> phase_slice songs 1 = py_slice songs 800 900
       \<and> phase_slice songs 2 = py_slice songs 900 990
       \<and> set (phase_slice songs 0) \<inter> set (phase_slice songs 1) = {}
       \<and> set (py_slice songs 990 1000)
           \<inter> set (phase_slice songs 0 @ phase_slice songs 1 @ phase_slice songs 2) = {})
   \<and> data_split example_cfg = default_data_split
   \<and> (\<exists>wa wb wc.
         generate_datasets example_ext
           [''a'', ''b'', ''c'', ''d'', ''e'', ''f'', ''g'', ''h'', ''i'', ''j'', ''k'', ''l'']
           example_cfg empty_world = Inr wc
       \<and> process_split example_ext example_cfg ''train''
           [''a'', ''b'', ''c'', ''d'', ''e'', ''f'', ''g'', ''h'', ''i''] empty_world = Inr wa
       \<and> process_split example_ext example_cfg ''val'' [''j''] wa = Inr wb
       \<and> process_split example_ext example_cfg ''test'' [''k''] wb = Inr wc)"
proof -
  define songs where "songs = map (\<lambda>i. replicate i (CHR ''a'')) [0..<1000]"
  define cfg where "cfg = \<lparr>cols_to_normalize = [''mfcc''], data_split = default_data_split\<rparr>"
  have c: "data_split cfg = default_data_split" by (simp add: cfg_def)
  have n: "length songs = 1000" by (simp add: songs_def)
  have d: "distinct songs" by (simp add: songs_def distinct_map inj_on_def)
  from generate_datasets_default_splits [OF c, of _ songs] n d
  have "phase_slice songs 0 = py_slice songs 0 800
       \<and> phase_slice songs 1 = py_slice songs 800 900
       \<and> phase_slice songs 2 = py_slice songs 900 990
       \<and> set (phase_slice songs 0) \<inter> set (phase_slice songs 1) = {}
       \<and> set (py_slice songs 990 1000)
           \<inter> set (phase_slice songs 0 @ phase_slice songs 1 @ phase_slice songs 2) = {}"
    by blast
  with c n d have first: "(let songs = map (\<lambda>i. replicate i (CHR ''a'')) [0..<1000];
        cfg = \<lparr>cols_to_normalize = [''mfcc''], data_split = default_data_split\<rparr>
    in data_split cfg = default_data_split \<and> length songs = 1000 \<and> distinct songs
       \<and> phase_slice songs 0 = py_slice songs 0 800
       \<and> phase_slice songs 1 = py_slice songs 800 900
       \<and> phase_slice songs 2 = py_slice songs 900 990
       \<and> set (phase_slice songs 0) \<inter> set (phase_slice songs 1) = {}
       \<and> set (py_slice songs 990 1000)
           \<inter> set (phase_slice songs 0 @ phase_slice songs 1 @ phase_slice songs 2) = {})"
    unfolding Let_def songs_def [symmetric] cfg_def [symmetric] by blast
  let ?songs = "[''a'', ''b'', ''c'', ''d'', ''e'', ''f'', ''g'', ''h'', ''i'', ''j'', ''k'', ''l'']"
  have e: "data_split example_cfg = default_data_split" by (simp add: example_cfg_def)
  have l: "length ?songs = 12" by simp
  have s0: "phase_slice ?songs 0 = [''a'', ''b'', ''c'', ''d'', ''e'', ''f'', ''g'', ''h'', ''i'']"
    unfolding phase_slice_eq l split_bound_12 by (simp add: py_slice_def)
  have s1: "phase_slice ?songs 1 = [''j'']"
    unfolding phase_slice_eq l split_bound_12 by (simp add: py_slice_def)
  have s2: "phase_slice ?songs 2 = [''k'']"
    unfolding phase_slice_eq l split_bound_12 by (simp add: py_slice_def)
  have "\<exists>wc. generate_datasets example_ext ?songs example_cfg empty_world = Inr wc"
    unfolding generate_datasets_unfold [OF e] s0 s1 s2
    by (simp add: example_run_defs example_cfg_def)
  then obtain wc where g: "generate_datasets example_ext ?songs example_cfg empty_world = Inr wc"
    ..
  from generate_datasets_default_splits [OF e, THEN conjunct2, THEN conjunct2, THEN conjunct2,
      THEN conjunct2, THEN conjunct2, THEN conjunct1, rule_format, OF g]
  obtain wa wb where
    "process_split example_ext example_cfg ''train'' (phase_slice ?songs 0) empty_world = Inr wa"
    "process_split example_ext example_cfg ''val'' (phase_slice ?songs 1) wa = Inr wb"
    "process_split example_ext example_cfg ''test'' (phase_slice ?songs 2) wb = Inr wc"
    by (elim exE conjE)
  with g have "\<exists>wa wb wc.
         generate_datasets example_ext ?songs example_cfg empty_world = Inr wc
       \<and> process_split example_ext example_cfg ''train''
           [''a'', ''b'', ''c'', ''d'', ''e'', ''f'', ''g'', ''h'', ''i''] empty_world = Inr wa
       \<and> process_split example_ext example_cfg ''val'' [''j''] wa = Inr wb
       \<and> process_split example_ext example_cfg ''test'' [''k''] wb = Inr wc"
    unfolding s0 s1 s2 by blast
  with first e show ?thesis by (intro conjI)
qed

text \<open>
  C1 as stated fails for a short list: with one song folder, whose extraction succeeds, the
  three slices are \<^verbatim>\<open>songs[0:0]\<close>, every phase is skipped and no split is built.
\<close>

theorem generate_datasets_one_song:
  "process_song_folder example_ext ''a'' (0, 1) = Some (example_table 1)
   \<and> data_split example_cfg = default_data_split
   \<and> generate_datasets example_ext [''a''] example_cfg empty_world =
       Inr (empty_world\<lparr>warnings :=
         [''Dataset creation collected 0 songs. Check if searching in correct folders.'',
          ''Skipped train dataset. No songs.'',
          ''Dataset creation collected 0 songs. Check if searching in correct folders.'',
          ''Skipped val dataset. No songs.'',
          ''Dataset creation collected 0 songs. Check if searching in correct folders.'',
          ''Skipped test dataset. No songs.'']\<rparr>)
   \<and> beatmaps_pkl (empty_world\<lparr>warnings :=
         [''Dataset creation collected 0 songs. Check if searching in correct folders.'',
          ''Skipped train dataset. No songs.'',
          ''Dataset creation collected 0 songs. Check if searching in correct folders.'',
          ''Skipped val dataset. No songs.'',
          ''Dataset creation collected 0 songs. Check if searching in correct folders.'',
          ''Skipped test dataset. No songs.'']\<rparr>) = Map.empty"
proof -
  have e: "data_split example_cfg = default_data_split" by (simp add: example_cfg_def)
  have l: "length [''a''] = 1" by simp
  have z: "py_slice [''a''] 0 0 = []" by (simp add: py_slice_def)
  have "generate_datasets example_ext [''a''] example_cfg empty_world =
       Inr (empty_world\<lparr>warnings :=
         [''Dataset creation collected 0 songs. Check if searching in correct folders.'',
          ''Skipped train dataset. No songs.'',
          ''Dataset creation collected 0 songs. Check if searching in correct folders.'',
          ''Skipped val dataset. No songs.'',
          ''Dataset creation collected 0 songs. Check if searching in correct folders.'',
          ''Skipped test dataset. No songs.'']\<rparr>)"
    unfolding generate_datasets_unfold [OF e] phase_slice_eq l split_bound_1 z process_split_nil
    by (simp add: log_warning_def empty_world_def)
  moreover have "process_song_folder example_ext ''a'' (0, 1) = Some (example_table 1)"
    by (simp add: example_ext_def)
  ultimately show ?thesis using e by (simp add: empty_world_def)
qed


end
